theory Spec2Isabelle
  imports Complex_Main "HOL-Library.AList" "HOL-Library.Sublist"
begin

text \<open>
  An embedding of the ingestion scripts of the repository:
  \<open>scripts/1_feat_back_param.py\<close> (the backfill over the sensor registry),
  \<open>scripts/2_feature_pipeline.py\<close> (the daily update over the same registry) and
  \<open>scripts/1_feature_backfill.py\<close> (the backfill of the one sensor of the settings file).
  Each Python function keeps its name; where two scripts define one (\<open>process_sensor\<close>,
  \<open>main\<close>) the name carries the script.  \<open>slugify\<close> is the same text in both registry
  scripts.  \<open>run_daily.py\<close> only schedules notebooks.
\<close>

section \<open>Text\<close>

text \<open>
  Python's \<open>str\<close> is a sequence of Unicode code points.  A \<^typ>\<open>char\<close> stands for the
  code point \<^term>\<open>of_char c :: nat\<close>, so the model covers text over the code points
  0..255 (ASCII and the Latin-1 supplement).  The character classes below are the ones
  \<open>str.strip\<close>, \<open>str.lower\<close> and the \<open>re\<close> module (with a \<open>str\<close> pattern, hence
  Unicode-aware \<open>\w\<close> and \<open>\s\<close>) use on that range.
\<close>

definition py_isspace :: "char \<Rightarrow> bool" where
  \<comment> \<open>\<open>str.isspace\<close> and \<open>\s\<close>: TAB..CR, FS..US, space, NEL, NBSP\<close>
  "py_isspace c = (let n = (of_char c :: nat) in
     (9 \<le> n \<and> n \<le> 13) \<or> (28 \<le> n \<and> n \<le> 32) \<or> n = 133 \<or> n = 160)"

definition py_isalnum :: "char \<Rightarrow> bool" where
  \<comment> \<open>letters, decimal digits and the other numeric characters of the range\<close>
  "py_isalnum c = (let n = (of_char c :: nat) in
     (48 \<le> n \<and> n \<le> 57) \<or> (65 \<le> n \<and> n \<le> 90) \<or> (97 \<le> n \<and> n \<le> 122) \<or>
     n = 170 \<or> n = 178 \<or> n = 179 \<or> n = 181 \<or> n = 185 \<or> n = 186 \<or>
     (188 \<le> n \<and> n \<le> 190) \<or> (192 \<le> n \<and> n \<le> 214) \<or> (216 \<le> n \<and> n \<le> 246) \<or>
     (248 \<le> n \<and> n \<le> 255))"

definition py_lower :: "char \<Rightarrow> char" where
  \<comment> \<open>\<open>str.lower\<close> on one code point: A..Z and the upper-case Latin-1 letters move by 32\<close>
  "py_lower c = (let n = (of_char c :: nat) in
     if (65 \<le> n \<and> n \<le> 90) \<or> (192 \<le> n \<and> n \<le> 214) \<or> (216 \<le> n \<and> n \<le> 222)
     then char_of (n + 32) else c)"

definition re_word :: "char \<Rightarrow> bool" where
  \<comment> \<open>the class \<open>\w\<close>\<close>
  "re_word c = (py_isalnum c \<or> c = CHR ''_'')"

definition sep :: "char \<Rightarrow> bool" where
  \<comment> \<open>the class \<open>[\s-]\<close>\<close>
  "sep c = (py_isspace c \<or> c = CHR ''-'')"

definition strip :: "string \<Rightarrow> string" where
  "strip s = rev (dropWhile py_isspace (rev (dropWhile py_isspace s)))"

text \<open>\<open>re.sub(r"[\s-]+", "_", text)\<close>: every maximal run of separators becomes one underscore.\<close>

function sub_runs :: "string \<Rightarrow> string" where
  "sub_runs [] = []"
| "sub_runs (c # cs) =
     (if sep c then CHR ''_'' # sub_runs (dropWhile sep cs) else c # sub_runs cs)"
  by pat_completeness auto
termination
  by (relation "measure length") (auto simp: less_Suc_eq_le length_dropWhile_le)

definition slugify :: "string \<Rightarrow> string" where
  "slugify text =
     (let text1 = map py_lower (strip text);
          text2 = filter (\<lambda>c. re_word c \<or> py_isspace c \<or> c = CHR ''-'') text1;
          text3 = sub_runs text2
      in text3)"

definition air_quality_csv_path :: "string \<Rightarrow> string \<Rightarrow> string" where
  \<comment> \<open>\<open>root_dir / "data" / f"{slugify(street)}.csv"\<close>\<close>
  "air_quality_csv_path root_dir street = root_dir @ ''/data/'' @ slugify street @ ''.csv''"

text \<open>The pattern \<open>^[a-z0-9_]*$\<close>, character by character.\<close>

definition az09us :: "char \<Rightarrow> bool" where
  "az09us c = (let n = (of_char c :: nat) in
     (97 \<le> n \<and> n \<le> 122) \<or> (48 \<le> n \<and> n \<le> 57) \<or> c = CHR ''_'')"

definition ascii :: "char \<Rightarrow> bool" where
  "ascii c = ((of_char c :: nat) < 128)"

subsection \<open>\<open>json.dumps\<close> of a flat dictionary of strings\<close>

definition hex_digit :: "nat \<Rightarrow> char" where
  "hex_digit n = ''0123456789abcdef'' ! (n mod 16)"

definition json_escape :: "char \<Rightarrow> string" where
  "json_escape c = (let n = (of_char c :: nat) in
     if n = 34 then [CHR 0x5C, CHR 0x22]
     else if n = 92 then [CHR 0x5C, CHR 0x5C]
     else if n = 10 then [CHR 0x5C, CHR ''n'']
     else if n = 13 then [CHR 0x5C, CHR ''r'']
     else if n = 9 then [CHR 0x5C, CHR ''t'']
     else if n = 8 then [CHR 0x5C, CHR ''b'']
     else if n = 12 then [CHR 0x5C, CHR ''f'']
     else if 32 \<le> n \<and> n \<le> 126 then [c]
     else [CHR 0x5C, CHR ''u'', CHR ''0'', CHR ''0'', hex_digit (n div 16), hex_digit n])"

definition json_string :: "string \<Rightarrow> string" where
  "json_string s = [CHR 0x22] @ concat (map json_escape s) @ [CHR 0x22]"

fun json_items :: "(string \<times> string) list \<Rightarrow> string" where
  "json_items [] = []"
| "json_items [(k, v)] = json_string k @ '': '' @ json_string v"
| "json_items ((k, v) # kvs) = json_string k @ '': '' @ json_string v @ '', '' @ json_items kvs"

definition json_dumps :: "(string \<times> string) list \<Rightarrow> string" where
  "json_dumps kvs = ''{'' @ json_items kvs @ ''}''"

section \<open>Data frames\<close>

text \<open>
  A data frame is the list of its rows; a row maps column names to cells.  A timestamp
  \<open>Ts d t\<close> is calendar day \<open>d\<close> (a day number) and \<open>t\<close> microseconds after midnight, the
  resolution at which \<open>between_time\<close> compares.  \<open>NaN\<close> is a missing value (also NaT).
  Numbers are exact rationals: the rounding of \<open>astype("float32")\<close> is not modelled.
\<close>

datatype cell = NaN | Num rat | Str string | Ts int nat

type_synonym row = "(string \<times> cell) list"
type_synonym dataframe = "row list"

datatype error =
    KeyError string
  | ValueError string
  | TypeError string
  | AttributeError string
  | FileNotFoundError string
  | RuntimeError string
  | RestAPIError string
  | DataValidationException string
  | MissingColumnsError "string list"
  | DataSourceError string

fun traverse :: "('a \<Rightarrow> error + 'b) \<Rightarrow> 'a list \<Rightarrow> error + 'b list" where
  "traverse f [] = Inr []"
| "traverse f (x # xs) =
     (case f x of Inl e \<Rightarrow> Inl e
      | Inr y \<Rightarrow> (case traverse f xs of Inl e \<Rightarrow> Inl e | Inr ys \<Rightarrow> Inr (y # ys)))"

definition select_columns :: "string list \<Rightarrow> dataframe \<Rightarrow> error + dataframe" where
  \<comment> \<open>\<open>df[[...]].copy()\<close>; a column that is not there is a KeyError\<close>
  "select_columns cols df =
     traverse (\<lambda>r. traverse (\<lambda>c. case map_of r c of None \<Rightarrow> Inl (KeyError c)
                                            | Some v \<Rightarrow> Inr (c, v)) cols) df"

definition astype_float :: "string \<Rightarrow> dataframe \<Rightarrow> error + dataframe" where
  \<comment> \<open>\<open>df[col] = df[col].astype(...)\<close> to a float type; text that is no number is a ValueError\<close>
  "astype_float col df =
     traverse (\<lambda>r. case map_of r col of
                      None \<Rightarrow> Inl (KeyError col)
                    | Some NaN \<Rightarrow> Inr r
                    | Some (Num x) \<Rightarrow> Inr r
                    | Some (Str t) \<Rightarrow> Inl (ValueError t)
                    | Some (Ts d t) \<Rightarrow> Inl (TypeError col)) df"

definition dropna :: "dataframe \<Rightarrow> dataframe" where
  "dropna df = filter (\<lambda>r. list_all (\<lambda>kv. snd kv \<noteq> NaN) r) df"

definition assign :: "string \<Rightarrow> cell \<Rightarrow> dataframe \<Rightarrow> dataframe" where
  \<comment> \<open>\<open>df[col] = v\<close> with a scalar \<open>v\<close>\<close>
  "assign col v df = map (AList.update col v) df"

definition earliest_date :: "dataframe \<Rightarrow> error + int" where
  \<comment> \<open>\<open>pd.Series.min(df["date"]).strftime("%Y-%m-%d")\<close>: the day of the least timestamp;
      the minimum of an empty column is NaT, whose \<open>strftime\<close> raises\<close>
  "earliest_date df =
     (case traverse (\<lambda>r. case map_of r ''date'' of
                            None \<Rightarrow> Inl (KeyError ''date'')
                          | Some (Ts d t) \<Rightarrow> Inr d
                          | Some _ \<Rightarrow> Inl (AttributeError ''strftime'')) df of
        Inl e \<Rightarrow> Inl e
      | Inr [] \<Rightarrow> Inl (ValueError ''NaTType does not support strftime'')
      | Inr (d # ds) \<Rightarrow> Inr (fold min ds d))"

subsection \<open>The near-noon sample of the hourly forecast\<close>

definition time_micros :: "nat \<Rightarrow> nat \<Rightarrow> nat" where
  "time_micros h m = (h * 60 + m) * 60 * 1000000"

definition between_time :: "nat \<Rightarrow> nat \<Rightarrow> dataframe \<Rightarrow> error + dataframe" where
  \<comment> \<open>\<open>df.set_index("date").between_time(start, end)\<close>, both ends included; an index that
      is not made of timestamps is a TypeError\<close>
  "between_time start_time end_time df =
     (case traverse (\<lambda>r. case map_of r ''date'' of
                            None \<Rightarrow> Inl (KeyError ''date'')
                          | Some (Ts d t) \<Rightarrow> Inr (t, r)
                          | Some _ \<Rightarrow> Inl (TypeError ''Index must be DatetimeIndex'')) df of
        Inl e \<Rightarrow> Inl e
      | Inr trs \<Rightarrow> Inr (map snd (filter (\<lambda>tr. start_time \<le> fst tr \<and> fst tr \<le> end_time) trs)))"

definition normalize_date :: "row \<Rightarrow> row" where
  \<comment> \<open>\<open>pd.to_datetime(pd.to_datetime(df["date"]).dt.date)\<close> on one row\<close>
  "normalize_date r =
     (case map_of r ''date'' of Some (Ts d t) \<Rightarrow> AList.update ''date'' (Ts d 0) r | _ \<Rightarrow> r)"

definition daily_weather :: "string \<Rightarrow> dataframe \<Rightarrow> error + dataframe" where
  "daily_weather city hourly_df =
     (case between_time (time_micros 11 59) (time_micros 12 1) hourly_df of
        Inl e \<Rightarrow> Inl e
      | Inr daily_df \<Rightarrow> Inr (assign ''city'' (Str city) (map normalize_date daily_df)))"

section \<open>Expectation suites\<close>

record expectation =
  expectation_type :: string
  column :: string
  min_value :: rat
  max_value :: rat
  strict_min :: bool

definition add_min_gt_zero :: "string \<Rightarrow> expectation" where
  "add_min_gt_zero col =
     \<lparr>expectation_type = ''expect_column_min_to_be_between'', column = col,
      min_value = - (1 / 10), max_value = 1000, strict_min = True\<rparr>"

definition ge_suite_air_quality :: "expectation list" where
  "ge_suite_air_quality =
     [\<lparr>expectation_type = ''expect_column_min_to_be_between'', column = ''pm25'',
       min_value = - (1 / 10), max_value = 500, strict_min = True\<rparr>]"

definition ge_suite_weather :: "expectation list" where
  "ge_suite_weather = [add_min_gt_zero ''precipitation_sum'', add_min_gt_zero ''wind_speed_10m_max'']"

definition column_values :: "string \<Rightarrow> dataframe \<Rightarrow> rat list" where
  "column_values col df =
     concat (map (\<lambda>r. case map_of r col of Some (Num x) \<Rightarrow> [x] | _ \<Rightarrow> []) df)"

definition expect_column_min_to_be_between :: "expectation \<Rightarrow> dataframe \<Rightarrow> bool" where
  \<comment> \<open>the least value of the column lies between the bounds, the lower one strict when
      \<open>strict_min\<close> is set; a column without values has no minimum and fails\<close>
  "expect_column_min_to_be_between e df =
     (case column_values (column e) df of
        [] \<Rightarrow> False
      | x # xs \<Rightarrow>
          (let m = fold min xs x
           in (if strict_min e then min_value e < m else min_value e \<le> m) \<and> m \<le> max_value e))"

definition validate :: "expectation list \<Rightarrow> dataframe \<Rightarrow> bool" where
  "validate suite df = list_all (\<lambda>e. expect_column_min_to_be_between e df) suite"

section \<open>The stores and the external services\<close>

record feature_group =
  description :: string
  version :: nat
  primary_key :: "string list"
  event_time :: string
  expectation_suite :: "expectation list"
  rows :: dataframe

text \<open>What the scripts print, each line as the values it is formatted from.\<close>

datatype event =
    ProcessingSensor string string
  | DailyUpdate string string int
  | GetPm25Called
  | GetHourlyWeatherCalled
  | ReplacingExistingSecret string
  | Completed string string
  | ErrorProcessing string string error
  | NeedApiKey
  | MissingSensorsCsv
  | MissingRequiredColumns "string list"
  | ProcessingSensors nat
  | AllSensorsProcessed
  | Traceback error
  | FoundApiKey string
  | ApiKeyWorks
  | ApiKeyFailed
  | FrameInfo
  | BackfillComplete

text \<open>
  The state a run acts on: the secret store (keyed by name), the feature store (keyed by
  collection name; every collection of these scripts has version 1) and what was printed.
\<close>

record state =
  secrets :: "string \<rightharpoonup> string"
  feature_groups :: "string \<rightharpoonup> feature_group"
  stdout :: "event list"

datatype ingestion_policy = ALWAYS | STRICT

text \<open>
  What the scripts call and do not define: the file reader, the three acquisition
  adapters of \<open>mlfs.airquality.util\<close>, the failures of the secret store's calls, and what
  the feature store does with a batch that fails the suite attached to its collection
  (\<open>STRICT\<close>: the insert raises and stores nothing; \<open>ALWAYS\<close>: the batch is stored).
  Dates are passed as day numbers where the scripts pass their ISO text.
\<close>

record env =
  read_csv :: "string \<Rightarrow> error + dataframe"
  get_historical_weather :: "string \<Rightarrow> int \<Rightarrow> int \<Rightarrow> string \<Rightarrow> string \<Rightarrow> error + dataframe"
  get_pm25 :: "string \<Rightarrow> string \<Rightarrow> string \<Rightarrow> string \<Rightarrow> int \<Rightarrow> string \<Rightarrow> error + dataframe"
  get_hourly_weather_forecast :: "string \<Rightarrow> string \<Rightarrow> string \<Rightarrow> error + dataframe"
  get_secret_raises :: "state \<Rightarrow> string \<Rightarrow> bool"
  delete_secret_raises :: "state \<Rightarrow> string \<Rightarrow> bool"
  create_secret_raises :: "state \<Rightarrow> string \<Rightarrow> bool"
  validation_ingestion_policy :: ingestion_policy

subsection \<open>Computations that may raise and that change the state\<close>

type_synonym 'a comp = "state \<Rightarrow> (error + 'a) \<times> state"

definition ret :: "'a \<Rightarrow> 'a comp" where
  "ret x s = (Inr x, s)"

definition lift :: "error + 'a \<Rightarrow> 'a comp" where
  "lift r s = (r, s)"

definition andthen :: "'a comp \<Rightarrow> ('a \<Rightarrow> 'b comp) \<Rightarrow> 'b comp" where
  "andthen m f s = (case m s of (Inl e, s') \<Rightarrow> (Inl e, s') | (Inr x, s') \<Rightarrow> f x s')"

definition try_except :: "'a comp \<Rightarrow> (error \<Rightarrow> 'a comp) \<Rightarrow> 'a comp" where
  "try_except m h s = (case m s of (Inl e, s') \<Rightarrow> h e s' | (Inr x, s') \<Rightarrow> (Inr x, s'))"

definition print :: "event \<Rightarrow> unit comp" where
  "print ev s = (Inr (), s\<lparr>stdout := stdout s @ [ev]\<rparr>)"

subsection \<open>Secret store\<close>

definition get_secret :: "env \<Rightarrow> string \<Rightarrow> string option comp" where
  "get_secret env name s =
     (if get_secret_raises env s name then (Inl (RestAPIError name), s)
      else (Inr (secrets s name), s))"

definition delete_secret :: "env \<Rightarrow> string \<Rightarrow> unit comp" where
  "delete_secret env name s =
     (if delete_secret_raises env s name then (Inl (RestAPIError name), s)
      else (Inr (), s\<lparr>secrets := (secrets s)(name := None)\<rparr>))"

definition create_secret :: "env \<Rightarrow> string \<Rightarrow> string \<Rightarrow> unit comp" where
  "create_secret env name val s =
     (if create_secret_raises env s name then (Inl (RestAPIError name), s)
      else (Inr (), s\<lparr>secrets := (secrets s)(name \<mapsto> val)\<rparr>))"

definition save_secret :: "env \<Rightarrow> string \<Rightarrow> string \<Rightarrow> unit comp" where
  "save_secret env name val =
     andthen
       (try_except
          (andthen (get_secret env name) (\<lambda>existing.
             case existing of
               None \<Rightarrow> ret ()
             | Some _ \<Rightarrow> andthen (delete_secret env name) (\<lambda>_. print (ReplacingExistingSecret name))))
          (\<lambda>e. ret ()))
       (\<lambda>_. create_secret env name val)"

subsection \<open>Feature store\<close>

definition get_or_create_feature_group ::
  "string \<Rightarrow> string \<Rightarrow> nat \<Rightarrow> string list \<Rightarrow> string \<Rightarrow> expectation list \<Rightarrow> string comp" where
  \<comment> \<open>the handle of a collection is its name; an existing collection is reused as it is\<close>
  "get_or_create_feature_group name descr ver pk et suite s =
     (case feature_groups s name of
        Some fg \<Rightarrow> (Inr name, s)
      | None \<Rightarrow>
          (Inr name,
           s\<lparr>feature_groups := (feature_groups s)(name \<mapsto>
               \<lparr>description = descr, version = ver, primary_key = pk, event_time = et,
                expectation_suite = suite, rows = []\<rparr>)\<rparr>))"

definition get_feature_group :: "string \<Rightarrow> string comp" where
  "get_feature_group name s =
     (case feature_groups s name of
        Some fg \<Rightarrow> (Inr name, s)
      | None \<Rightarrow> (Inl (RestAPIError name), s))"

definition insert_rows :: "env \<Rightarrow> string \<Rightarrow> dataframe \<Rightarrow> unit comp" where
  \<comment> \<open>\<open>fg.insert(df)\<close>: the rows are appended to the collection's history\<close>
  "insert_rows env fg_handle df s =
     (case feature_groups s fg_handle of
        None \<Rightarrow> (Inl (RestAPIError fg_handle), s)
      | Some fg \<Rightarrow>
          if validation_ingestion_policy env = STRICT \<and> \<not> validate (expectation_suite fg) df
          then (Inl (DataValidationException fg_handle), s)
          else (Inr (), s\<lparr>feature_groups := (feature_groups s)(fg_handle \<mapsto>
                             fg\<lparr>rows := rows fg @ df\<rparr>)\<rparr>))"

section \<open>The sensor registry\<close>

text \<open>
  \<open>pd.read_csv(sensors_csv, dtype=str).fillna("")\<close>: the header and, for every line, the
  text of each column (the empty text where the file has none).
\<close>

record sensors_df =
  columns :: "string list"
  records :: "(string \<times> string) list list"

type_synonym sensor_row = "(string \<times> string) list"

definition row_str :: "sensor_row \<Rightarrow> string \<Rightarrow> error + string" where
  \<comment> \<open>\<open>str(row[k]).strip()\<close>\<close>
  "row_str row k = (case map_of row k of None \<Rightarrow> Inl (KeyError k) | Some v \<Rightarrow> Inr (strip v))"

definition row_get :: "sensor_row \<Rightarrow> string \<Rightarrow> string \<Rightarrow> string" where
  \<comment> \<open>\<open>row.get(k, default)\<close>\<close>
  "row_get row k dflt = (case map_of row k of None \<Rightarrow> dflt | Some v \<Rightarrow> v)"

definition required_cols :: "string list" where
  \<comment> \<open>the required columns, listed in the order \<open>sorted\<close> gives them\<close>
  "required_cols = [''AQICN_URL'', ''city'', ''country'', ''latitude'', ''longitude'', ''street'']"

definition missing_cols :: "sensors_df \<Rightarrow> string list" where
  \<comment> \<open>\<open>sorted(required_cols - set(df.columns))\<close>\<close>
  "missing_cols df = filter (\<lambda>c. c \<notin> set (columns df)) required_cols"

section \<open>Backfill: \<open>scripts/1_feat_back_param.py\<close>\<close>

text \<open>
  \<open>process_sensor\<close>, statement by statement.  \<open>util.check_file_path\<close> only reports whether
  the file is there; a file that is not there is the error of \<open>read_csv\<close>.  The two
  \<open>astype\<close> calls on \<open>pm25\<close> are both kept, although numbers are not rounded here.
\<close>

definition process_sensor_backfill ::
  "env \<Rightarrow> string \<Rightarrow> sensor_row \<Rightarrow> string \<Rightarrow> int \<Rightarrow> unit comp" where
  "process_sensor_backfill env root_dir row aq_api_key today =
     andthen (lift (row_str row ''AQICN_URL'')) (\<lambda>aqicn_url.
     andthen (lift (row_str row ''country'')) (\<lambda>country.
     andthen (lift (row_str row ''city'')) (\<lambda>city.
     andthen (lift (row_str row ''street'')) (\<lambda>street.
     andthen (lift (row_str row ''latitude'')) (\<lambda>latitude.
     andthen (lift (row_str row ''longitude'')) (\<lambda>longitude.
     andthen (print (ProcessingSensor city street)) (\<lambda>_.
     andthen (lift (read_csv env (air_quality_csv_path root_dir street))) (\<lambda>df.
     andthen (lift (select_columns [''date'', ''pm25''] df)) (\<lambda>df_aq.
     andthen (lift (astype_float ''pm25'' df_aq)) (\<lambda>df_aq.
     andthen (ret (assign ''url'' (Str aqicn_url) (assign ''street'' (Str street)
                (assign ''city'' (Str city) (assign ''country'' (Str country)
                  (dropna df_aq)))))) (\<lambda>df_aq.
     andthen (lift (earliest_date df_aq)) (\<lambda>earliest_aq_date.
     andthen (lift (get_historical_weather env city earliest_aq_date today latitude longitude))
       (\<lambda>weather_df.
     andthen (save_secret env ''AQICN_API_KEY'' aq_api_key) (\<lambda>_.
     andthen (save_secret env (''SENSOR_LOCATION_JSON_'' @ slugify street)
                (json_dumps [(''country'', country), (''city'', city), (''street'', street),
                             (''aqicn_url'', aqicn_url), (''latitude'', latitude),
                             (''longitude'', longitude)])) (\<lambda>_.
     andthen (get_or_create_feature_group (''air_quality_'' @ slugify street)
                (''Air Quality per day ('' @ street @ '', '' @ city @ '')'') 1
                [''country'', ''city'', ''street''] ''date'' ge_suite_air_quality)
       (\<lambda>air_quality_fg.
     andthen (lift (astype_float ''pm25'' df_aq)) (\<lambda>df_aq.
     andthen (insert_rows env air_quality_fg df_aq) (\<lambda>_.
     andthen (get_or_create_feature_group (''weather_'' @ slugify street)
                (''Weather per day ('' @ street @ '', '' @ city @ '')'') 1
                [''city''] ''date'' ge_suite_weather)
       (\<lambda>weather_fg.
     andthen (insert_rows env weather_fg weather_df) (\<lambda>_.
     print (Completed city street)))))))))))))))))))))"

text \<open>
  The loop of both \<open>main\<close> functions: each row is processed inside \<open>try\<close>, and the handler
  prints the row's city and street with the error.
\<close>

definition on_error :: "sensor_row \<Rightarrow> error \<Rightarrow> unit comp" where
  \<comment> \<open>the \<open>except\<close> branch of the loop\<close>
  "on_error row e =
     print (ErrorProcessing (row_get row ''city'' []) (row_get row ''street'' []) e)"

fun sensor_loop :: "(sensor_row \<Rightarrow> unit comp) \<Rightarrow> sensor_row list \<Rightarrow> state \<Rightarrow> state" where
  "sensor_loop process_sensor [] s = s"
| "sensor_loop process_sensor (row # rest) s =
     sensor_loop process_sensor rest
       (snd (try_except (process_sensor row) (on_error row) s))"

text \<open>
  \<open>main\<close> returns the exit code of the process and the final state.  \<open>AQICN_API_KEY\<close> is the
  key of the settings file, \<open>sensors_csv\<close> is \<open>None\<close> when the registry file does not exist
  and otherwise what \<open>pd.read_csv\<close> makes of it.  An exception that leaves \<open>main\<close> ends the
  process with a traceback and exit code 1.
\<close>

definition main_backfill ::
  "env \<Rightarrow> string \<Rightarrow> string option \<Rightarrow> (error + sensors_df) option \<Rightarrow> int \<Rightarrow> state \<Rightarrow> nat \<times> state" where
  "main_backfill env root_dir AQICN_API_KEY sensors_csv today s =
     (case AQICN_API_KEY of
        None \<Rightarrow> (1, snd (print NeedApiKey s))
      | Some aq_api_key \<Rightarrow>
          (case sensors_csv of
             None \<Rightarrow> (1, snd (print MissingSensorsCsv s))
           | Some (Inl e) \<Rightarrow> (1, snd (print (Traceback e) s))
           | Some (Inr df) \<Rightarrow>
               if missing_cols df \<noteq> []
               then (1, snd (print (MissingRequiredColumns (missing_cols df)) s))
               else
                 (let s1 = snd (print (ProcessingSensors (length (records df))) s);
                      s2 = sensor_loop (\<lambda>row. process_sensor_backfill env root_dir row aq_api_key today)
                             (records df) s1
                  in (0, snd (print AllSensorsProcessed s2)))))"

section \<open>Daily update: \<open>scripts/2_feature_pipeline.py\<close>\<close>

definition get_aqicn_api_key :: "env \<Rightarrow> string option \<Rightarrow> string comp" where
  "get_aqicn_api_key env AQICN_API_KEY =
     (case AQICN_API_KEY of
        Some k \<Rightarrow> ret k
      | None \<Rightarrow>
          try_except
            (andthen (get_secret env ''AQICN_API_KEY'') (\<lambda>secret.
               case secret of
                 None \<Rightarrow> lift (Inl (AttributeError ''value''))
               | Some v \<Rightarrow> ret v))
            (\<lambda>e. lift (Inl (RuntimeError ''AQICN_API_KEY not found in .env or Hopsworks secrets''))))"

definition get_sensor_rows :: "error + sensors_df \<Rightarrow> error + sensors_df" where
  "get_sensor_rows sensors_csv =
     (case sensors_csv of
        Inl e \<Rightarrow> Inl e
      | Inr df \<Rightarrow> if missing_cols df \<noteq> [] then Inl (MissingColumnsError (missing_cols df)) else Inr df)"

definition process_sensor_pipeline ::
  "env \<Rightarrow> sensor_row \<Rightarrow> string \<Rightarrow> int \<Rightarrow> unit comp" where
  "process_sensor_pipeline env row aq_api_key today =
     andthen (lift (row_str row ''AQICN_URL'')) (\<lambda>aqicn_url.
     andthen (lift (row_str row ''country'')) (\<lambda>country.
     andthen (lift (row_str row ''city'')) (\<lambda>city.
     andthen (lift (row_str row ''street'')) (\<lambda>street.
     andthen (lift (row_str row ''latitude'')) (\<lambda>latitude.
     andthen (lift (row_str row ''longitude'')) (\<lambda>longitude.
     andthen (print (DailyUpdate city street today)) (\<lambda>_.
     andthen (print GetPm25Called) (\<lambda>_.
     andthen (lift (get_pm25 env aqicn_url country city street today aq_api_key)) (\<lambda>aq_today_df.
     andthen (lift (astype_float ''pm25'' aq_today_df)) (\<lambda>aq_today_df.
     andthen (ret (assign ''url'' (Str aqicn_url) (assign ''street'' (Str street)
                (assign ''city'' (Str city) (assign ''country'' (Str country) aq_today_df)))))
       (\<lambda>aq_today_df.
     andthen (print GetHourlyWeatherCalled) (\<lambda>_.
     andthen (lift (get_hourly_weather_forecast env city latitude longitude)) (\<lambda>hourly_df.
     andthen (lift (daily_weather city hourly_df)) (\<lambda>daily_df.
     andthen (get_feature_group (''air_quality_'' @ slugify street)) (\<lambda>aq_fg.
     andthen (get_feature_group (''weather_'' @ slugify street)) (\<lambda>wx_fg.
     andthen (insert_rows env aq_fg aq_today_df) (\<lambda>_.
     andthen (insert_rows env wx_fg daily_df) (\<lambda>_.
     print (Completed city street)))))))))))))))))))"

definition main_pipeline ::
  "env \<Rightarrow> string option \<Rightarrow> (error + sensors_df) option \<Rightarrow> int \<Rightarrow> state \<Rightarrow> nat \<times> state" where
  "main_pipeline env AQICN_API_KEY sensors_csv today s =
     (case get_aqicn_api_key env AQICN_API_KEY s of
        (Inl e, s0) \<Rightarrow> (1, snd (print (Traceback e) s0))
      | (Inr aq_api_key, s0) \<Rightarrow>
          (case sensors_csv of
             None \<Rightarrow> (1, snd (print (Traceback (FileNotFoundError ''Missing sensors CSV'')) s0))
           | Some csv \<Rightarrow>
               (case get_sensor_rows csv of
                  Inl e \<Rightarrow> (1, snd (print (Traceback e) s0))
                | Inr df \<Rightarrow>
                    (let s1 = snd (print (ProcessingSensors (length (records df))) s0);
                         s2 = sensor_loop (\<lambda>row. process_sensor_pipeline env row aq_api_key today)
                                (records df) s1
                     in (0, snd (print AllSensorsProcessed s2))))))"

section \<open>Single-sensor backfill: \<open>scripts/1_feature_backfill.py\<close>\<close>

text \<open>
  The script has no functions: its statements run from top to bottom for the one sensor
  whose URL, country, city and street are in the settings file.  The coordinates, the
  name of the file of readings and the names of the two collections are constants of the
  script.  Its two blocks that replace a secret are the body of \<open>save_secret\<close>, word for
  word, and its two suites are \<open>ge_suite_air_quality\<close> and \<open>ge_suite_weather\<close>.
  \<open>print(df.info())\<close> is the event \<open>FrameInfo\<close>; the Greek letter in the description
  of \<open>pm25\<close>, a code point above 255, is written \<open>u\<close>.
\<close>

definition update_feature_description :: "string \<Rightarrow> string \<Rightarrow> string \<Rightarrow> unit comp" where
  \<comment> \<open>a call on the handle of a collection; the descriptions of the columns are not part of
      what is stored about a collection here\<close>
  "update_feature_description fg_handle feature descr s =
     (case feature_groups s fg_handle of
        None \<Rightarrow> (Inl (RestAPIError fg_handle), s)
      | Some fg \<Rightarrow> (Inr (), s))"

definition validate_api_token ::
  "env \<Rightarrow> string \<Rightarrow> string \<Rightarrow> string \<Rightarrow> string \<Rightarrow> int \<Rightarrow> string \<Rightarrow> unit comp" where
  \<comment> \<open>\<open>try: util.get_pm25(...) except hopsworks.RestAPIError: ...\<close>; any other error leaves
      the script\<close>
  "validate_api_token env aqicn_url country city street today api_key =
     try_except
       (andthen (lift (get_pm25 env aqicn_url country city street today api_key))
          (\<lambda>_. print ApiKeyWorks))
       (\<lambda>e. case e of RestAPIError m \<Rightarrow> print ApiKeyFailed | _ \<Rightarrow> lift (Inl e))"

definition feature_backfill_script ::
  "env \<Rightarrow> string \<Rightarrow> string \<Rightarrow> string \<Rightarrow> string \<Rightarrow> string \<Rightarrow> string \<Rightarrow> int \<Rightarrow> unit comp" where
  "feature_backfill_script env root_dir api_key aqicn_url country city street today =
     andthen (print (FoundApiKey api_key)) (\<lambda>_.
     andthen (save_secret env ''AQICN_API_KEY'' api_key) (\<lambda>_.
     andthen (validate_api_token env aqicn_url country city street today api_key) (\<lambda>_.
     andthen (lift (read_csv env (root_dir @ ''/data/schottenfeldgasse.csv''))) (\<lambda>df.
     andthen (lift (select_columns [''date'', ''pm25''] df)) (\<lambda>df_aq.
     andthen (lift (astype_float ''pm25'' df_aq)) (\<lambda>df_aq.
     andthen (print FrameInfo) (\<lambda>_.
     andthen (ret (assign ''url'' (Str aqicn_url) (assign ''street'' (Str street)
                (assign ''city'' (Str city) (assign ''country'' (Str country)
                  (dropna df_aq)))))) (\<lambda>df_aq.
     andthen (print FrameInfo) (\<lambda>_.
     andthen (lift (earliest_date df_aq)) (\<lambda>earliest_aq_date.
     andthen (lift (get_historical_weather env city earliest_aq_date today
                      ''48.200458'' ''16.343257'')) (\<lambda>weather_df.
     andthen (print FrameInfo) (\<lambda>_.
     andthen (save_secret env ''SENSOR_LOCATION_JSON''
                (json_dumps [(''country'', country), (''city'', city), (''street'', street),
                             (''aqicn_url'', aqicn_url), (''latitude'', ''48.200458''),
                             (''longitude'', ''16.343257'')])) (\<lambda>_.
     andthen (get_or_create_feature_group ''air_quality''
                ''Air Quality characteristics of each day'' 1
                [''country'', ''city'', ''street''] ''date'' ge_suite_air_quality)
       (\<lambda>air_quality_fg.
     andthen (lift (astype_float ''pm25'' df_aq)) (\<lambda>df_aq.
     andthen (print FrameInfo) (\<lambda>_.
     andthen (insert_rows env air_quality_fg df_aq) (\<lambda>_.
     andthen (update_feature_description air_quality_fg ''date''
                ''Date of measurement of air quality'') (\<lambda>_.
     andthen (update_feature_description air_quality_fg ''country''
                ''Country (sometimes a city in aqicn.org)'') (\<lambda>_.
     andthen (update_feature_description air_quality_fg ''city''
                ''City where the air quality was measured'') (\<lambda>_.
     andthen (update_feature_description air_quality_fg ''street''
                ''Street where the air quality was measured'') (\<lambda>_.
     andthen (update_feature_description air_quality_fg ''pm25'' ''PM2.5 (ug/m3)'') (\<lambda>_.
     andthen (get_or_create_feature_group ''weather''
                ''Weather characteristics of each day'' 1
                [''city''] ''date'' ge_suite_weather)
       (\<lambda>weather_fg.
     andthen (insert_rows env weather_fg weather_df) (\<lambda>_.
     andthen (update_feature_description weather_fg ''date''
                ''Date of weather measurement'') (\<lambda>_.
     andthen (update_feature_description weather_fg ''city'' ''City for weather'') (\<lambda>_.
     andthen (update_feature_description weather_fg ''temperature_2m_mean''
                ''Temperature in Celsius'') (\<lambda>_.
     andthen (update_feature_description weather_fg ''precipitation_sum''
                ''Precipitation (mm)'') (\<lambda>_.
     andthen (update_feature_description weather_fg ''wind_speed_10m_max''
                ''Max wind speed at 10m'') (\<lambda>_.
     andthen (update_feature_description weather_fg ''wind_direction_10m_dominant''
                ''Dominant wind direction'') (\<lambda>_.
     print BackfillComplete))))))))))))))))))))))))))))))"

text \<open>
  The whole script: exit code and final state.  Without an API key it prints and calls
  \<open>sys.exit(1)\<close>; an exception ends it with a traceback and exit code 1.
\<close>

definition feature_backfill ::
  "env \<Rightarrow> string \<Rightarrow> string option \<Rightarrow> string \<Rightarrow> string \<Rightarrow> string \<Rightarrow> string \<Rightarrow> int \<Rightarrow>
     state \<Rightarrow> nat \<times> state" where
  "feature_backfill env root_dir AQICN_API_KEY aqicn_url country city street today s =
     (case AQICN_API_KEY of
        None \<Rightarrow> (1, snd (print NeedApiKey s))
      | Some api_key \<Rightarrow>
          (case feature_backfill_script env root_dir api_key aqicn_url country city street
                  today s of
             (Inl e, s') \<Rightarrow> (1, snd (print (Traceback e) s'))
           | (Inr u, s') \<Rightarrow> (0, s')))"

section \<open>Notions used in the statements\<close>

definition slug_char :: "char \<Rightarrow> bool" where
  \<comment> \<open>a word character that \<open>lower\<close> leaves alone\<close>
  "slug_char c = (re_word c \<and> py_lower c = c)"

definition fg_rows :: "(string \<rightharpoonup> feature_group) \<Rightarrow> string \<Rightarrow> dataframe" where
  "fg_rows fgs name = (case fgs name of None \<Rightarrow> [] | Some fg \<Rightarrow> rows fg)"

definition rows_of :: "state \<Rightarrow> string \<Rightarrow> dataframe" where
  \<comment> \<open>the rows stored under a collection name (none when there is no such collection)\<close>
  "rows_of s name = fg_rows (feature_groups s) name"

definition fg_suite :: "(string \<rightharpoonup> feature_group) \<Rightarrow> string \<Rightarrow> expectation list" where
  "fg_suite fgs name = (case fgs name of None \<Rightarrow> [] | Some fg \<Rightarrow> expectation_suite fg)"

definition suite_of :: "state \<Rightarrow> string \<Rightarrow> expectation list" where
  \<comment> \<open>the suite attached to a collection\<close>
  "suite_of s name = fg_suite (feature_groups s) name"

definition in_noon_window :: "row \<Rightarrow> bool" where
  "in_noon_window r =
     (case map_of r ''date'' of
        Some (Ts d t) \<Rightarrow> time_micros 11 59 \<le> t \<and> t \<le> time_micros 12 1
      | _ \<Rightarrow> False)"

definition at_midnight :: "row \<Rightarrow> bool" where
  "at_midnight r = (case map_of r ''date'' of Some (Ts d t) \<Rightarrow> t = 0 | _ \<Rightarrow> False)"

text \<open>What a computation does to the feature store, and what it leaves in place.\<close>

definition unchanged_fgs :: "'a comp \<Rightarrow> bool" where
  "unchanged_fgs m = (\<forall>s. feature_groups (snd (m s)) = feature_groups s)"

definition fg_spec ::
  "((string \<rightharpoonup> feature_group) \<Rightarrow> error + 'a \<Rightarrow> (string \<rightharpoonup> feature_group) \<Rightarrow> bool) \<Rightarrow> 'a comp \<Rightarrow> bool" where
  "fg_spec Q m = (\<forall>s. Q (feature_groups s) (fst (m s)) (feature_groups (snd (m s))))"

definition extends :: "state \<Rightarrow> state \<Rightarrow> bool" where
  \<comment> \<open>nothing printed or stored is lost\<close>
  "extends s s' =
     (prefix (stdout s) (stdout s') \<and> (\<forall>n. prefix (rows_of s n) (rows_of s' n)))"

definition keeps_history :: "'a comp \<Rightarrow> bool" where
  "keeps_history m = (\<forall>s. extends s (snd (m s)))"

definition gate_spec ::
  "string \<Rightarrow> string \<Rightarrow> (string \<rightharpoonup> feature_group) \<Rightarrow> error + unit \<Rightarrow>
     (string \<rightharpoonup> feature_group) \<Rightarrow> bool" where
  \<comment> \<open>what a rejecting store guarantees for the two collections of one sensor\<close>
  "gate_spec aq wx g r g' =
     ((\<forall>n. n \<noteq> aq \<and> n \<noteq> wx \<longrightarrow> fg_rows g' n = fg_rows g n) \<and>
      (r = Inl (DataValidationException aq) \<longrightarrow>
         fg_rows g' aq = fg_rows g aq \<and> fg_rows g' wx = fg_rows g wx) \<and>
      (r = Inl (DataValidationException wx) \<longrightarrow> fg_rows g' wx = fg_rows g wx) \<and>
      (\<forall>n. fg_rows g' n \<noteq> fg_rows g n \<longrightarrow>
         (\<exists>df. fg_rows g' n = fg_rows g n @ df \<and> validate (fg_suite g' n) df)))"

section \<open>A small world to run the scripts in\<close>

definition demo_aq_csv :: dataframe where
  "demo_aq_csv =
     [[(''date'', Ts 19000 0), (''pm25'', Num 12), (''pm10'', Num 20)],
      [(''date'', Ts 19001 0), (''pm25'', NaN), (''pm10'', Num 21)],
      [(''date'', Ts 19002 0), (''pm25'', Num 7), (''pm10'', Num 22)]]"

definition demo_df_aq :: dataframe where
  "demo_df_aq =
     [[(''date'', Ts 19000 0), (''pm25'', Num 12), (''country'', Str ''austria''),
       (''city'', Str ''wien''), (''street'', Str ''Schottenfeldgasse''),
       (''url'', Str ''https://api.waqi.info/feed/@2850'')],
      [(''date'', Ts 19002 0), (''pm25'', Num 7), (''country'', Str ''austria''),
       (''city'', Str ''wien''), (''street'', Str ''Schottenfeldgasse''),
       (''url'', Str ''https://api.waqi.info/feed/@2850'')]]"

definition demo_weather :: "rat \<Rightarrow> dataframe" where
  "demo_weather precipitation =
     [[(''date'', Ts 19000 0), (''temperature_2m_mean'', Num 10),
       (''precipitation_sum'', Num precipitation), (''wind_speed_10m_max'', Num 5),
       (''wind_direction_10m_dominant'', Num 180), (''city'', Str ''wien'')]]"

definition hourly_sample :: "int \<Rightarrow> nat \<Rightarrow> nat \<Rightarrow> rat \<Rightarrow> row" where
  "hourly_sample d h m temperature =
     [(''date'', Ts d (time_micros h m)), (''temperature_2m_mean'', Num temperature),
      (''precipitation_sum'', Num 0), (''wind_speed_10m_max'', Num 5),
      (''wind_direction_10m_dominant'', Num 180)]"

definition daily_sample :: "int \<Rightarrow> rat \<Rightarrow> row" where
  "daily_sample d temperature =
     [(''date'', Ts d 0), (''temperature_2m_mean'', Num temperature),
      (''precipitation_sum'', Num 0), (''wind_speed_10m_max'', Num 5),
      (''wind_direction_10m_dominant'', Num 180), (''city'', Str ''wien'')]"

definition demo_hourly :: dataframe where
  "demo_hourly =
     [hourly_sample 20000 11 0 9, hourly_sample 20000 12 0 10, hourly_sample 20000 13 0 11,
      hourly_sample 20001 12 0 12]"

definition demo_daily :: dataframe where
  "demo_daily = [daily_sample 20000 10, daily_sample 20001 12]"

definition half_hourly :: dataframe where
  "half_hourly = [hourly_sample 20000 11 30 10, hourly_sample 20000 12 30 11]"

definition demo_aq_today :: dataframe where
  "demo_aq_today =
     [[(''pm25'', Num 15), (''date'', Ts 20000 0), (''country'', Str ''austria''),
       (''city'', Str ''wien''), (''street'', Str ''Schottenfeldgasse''),
       (''url'', Str ''https://api.waqi.info/feed/@2850'')]]"

definition demo_env :: "ingestion_policy \<Rightarrow> rat \<Rightarrow> env" where
  "demo_env policy precipitation =
     \<lparr>read_csv = (\<lambda>path. if path = ''/repo/data/schottenfeldgasse.csv'' then Inr demo_aq_csv
                          else Inl (FileNotFoundError path)),
      get_historical_weather = (\<lambda>city start_date end_date latitude longitude.
                                  Inr (demo_weather precipitation)),
      get_pm25 = (\<lambda>aqicn_url country city street day api_key.
                    Inr [[(''pm25'', Num 15), (''date'', Ts day 0)]]),
      get_hourly_weather_forecast = (\<lambda>city latitude longitude. Inr demo_hourly),
      get_secret_raises = (\<lambda>s name. False),
      delete_secret_raises = (\<lambda>s name. False),
      create_secret_raises = (\<lambda>s name. False),
      validation_ingestion_policy = policy\<rparr>"

definition demo_row :: sensor_row where
  "demo_row =
     [(''AQICN_URL'', ''https://api.waqi.info/feed/@2850''), (''country'', ''austria''),
      (''city'', ''wien''), (''street'', '' Schottenfeldgasse ''), (''latitude'', ''48.2''),
      (''longitude'', ''16.34'')]"

definition blank_row :: sensor_row where
  "blank_row =
     [(''AQICN_URL'', []), (''country'', []), (''city'', []), (''street'', []),
      (''latitude'', []), (''longitude'', [])]"

definition demo_registry :: "sensor_row list \<Rightarrow> sensors_df" where
  "demo_registry rs =
     \<lparr>columns = [''AQICN_URL'', ''country'', ''city'', ''street'', ''latitude'', ''longitude''],
      records = rs\<rparr>"

definition no_latitude_registry :: sensors_df where
  "no_latitude_registry =
     \<lparr>columns = [''AQICN_URL'', ''country'', ''city'', ''street'', ''longitude''],
      records = [[(''AQICN_URL'', ''https://api.waqi.info/feed/@2850''), (''country'', ''austria''),
                  (''city'', ''wien''), (''street'', ''Schottenfeldgasse''),
                  (''longitude'', ''16.34'')]]\<rparr>"

definition empty_state :: state where
  "empty_state = \<lparr>secrets = Map.empty, feature_groups = Map.empty, stdout = []\<rparr>"

definition seeded_state :: state where
  \<comment> \<open>the two collections of the demo sensor exist and are empty\<close>
  "seeded_state =
     \<lparr>secrets = Map.empty,
      feature_groups =
        [''air_quality_schottenfeldgasse'' \<mapsto>
           \<lparr>description = ''Air Quality per day (Schottenfeldgasse, wien)'', version = 1,
            primary_key = [''country'', ''city'', ''street''], event_time = ''date'',
            expectation_suite = ge_suite_air_quality, rows = []\<rparr>,
         ''weather_schottenfeldgasse'' \<mapsto>
           \<lparr>description = ''Weather per day (Schottenfeldgasse, wien)'', version = 1,
            primary_key = [''city''], event_time = ''date'',
            expectation_suite = ge_suite_weather, rows = []\<rparr>],
      stdout = []\<rparr>"

section \<open>The slug\<close>

lemma of_char_le_255: "(of_char c :: nat) \<le> 255"
  by (cases c) simp

lemma py_lower_idem: "py_lower (py_lower c) = py_lower c"
  using of_char_le_255 [of c] by (auto simp: py_lower_def Let_def)

lemma of_char_py_lower:
  "(of_char (py_lower c) :: nat) =
     (if (65 \<le> (of_char c :: nat) \<and> (of_char c :: nat) \<le> 90) \<or>
         (192 \<le> (of_char c :: nat) \<and> (of_char c :: nat) \<le> 214) \<or>
         (216 \<le> (of_char c :: nat) \<and> (of_char c :: nat) \<le> 222)
      then of_char c + 32 else of_char c)"
  using of_char_le_255 [of c] by (auto simp: py_lower_def Let_def)

lemma re_word_not_sep: "re_word c \<Longrightarrow> \<not> sep c"
  by (auto simp: re_word_def sep_def py_isalnum_def py_isspace_def Let_def)

lemma sep_lower_fixed: "sep c \<Longrightarrow> py_lower c = c"
  by (auto simp: sep_def py_isspace_def py_lower_def Let_def)

lemma set_sub_runs: "c \<in> set (sub_runs xs) \<Longrightarrow> c = CHR ''_'' \<or> (c \<in> set xs \<and> \<not> sep c)"
proof (induction xs rule: sub_runs.induct)
  case 1
  then show ?case by simp
next
  case (2 d ds)
  then show ?case
    by (auto split: if_splits dest: set_dropWhileD)
qed

lemma sub_runs_id: "\<forall>c \<in> set xs. \<not> sep c \<Longrightarrow> sub_runs xs = xs"
  by (induction xs) auto

lemma dropWhile_none: "\<forall>c \<in> set xs. \<not> P c \<Longrightarrow> dropWhile P xs = xs"
  by (cases xs) auto

lemma dropWhile_all: "\<forall>x \<in> set xs. P x \<Longrightarrow> dropWhile P xs = []"
  by (induction xs) auto

lemma in_dropWhile: "c \<in> set xs \<Longrightarrow> \<not> P c \<Longrightarrow> c \<in> set (dropWhile P xs)"
  by (induction xs) auto

lemma set_strip: "set (strip s) \<subseteq> set s"
  by (auto simp: strip_def dest!: set_dropWhileD)

lemma in_strip: "c \<in> set s \<Longrightarrow> \<not> py_isspace c \<Longrightarrow> c \<in> set (strip s)"
  by (simp add: strip_def in_dropWhile)

lemma strip_id: "\<forall>c \<in> set xs. \<not> py_isspace c \<Longrightarrow> strip xs = xs"
  by (simp add: strip_def dropWhile_none)

lemma strip_spaces: "list_all py_isspace s \<Longrightarrow> strip s = []"
  by (simp add: strip_def dropWhile_all list_all_iff)

lemma slugify_chars:
  assumes "c \<in> set (slugify s)"
  shows "c = CHR ''_'' \<or> (\<exists>d \<in> set s. c = py_lower d \<and> re_word c)"
proof -
  from assms have "c = CHR ''_'' \<or>
      (c \<in> set (filter (\<lambda>c. re_word c \<or> py_isspace c \<or> c = CHR ''-'')
                  (map py_lower (strip s))) \<and> \<not> sep c)"
    unfolding slugify_def Let_def by (rule set_sub_runs)
  then show ?thesis
    using set_strip [of s] by (auto simp: sep_def)
qed

lemma slug_char_underscore: "slug_char (CHR ''_'')"
  by (simp add: slug_char_def re_word_def py_lower_def)

lemma slugify_slug_chars: "list_all slug_char (slugify s)"
  unfolding list_all_iff
proof
  fix c assume "c \<in> set (slugify s)"
  from slugify_chars [OF this] show "slug_char c"
    by (auto simp: slug_char_underscore) (simp add: slug_char_def py_lower_idem)
qed

lemma slugify_fixed:
  assumes "list_all slug_char s"
  shows "slugify s = s"
proof -
  from assms have ns: "\<forall>c \<in> set s. \<not> sep c" and lo: "\<forall>c \<in> set s. py_lower c = c"
    and w: "\<forall>c \<in> set s. re_word c"
    by (auto simp: list_all_iff slug_char_def dest: re_word_not_sep)
  from ns have sp: "strip s = s" by (intro strip_id) (auto simp: sep_def)
  from lo have m: "map py_lower s = s" by (induction s) auto
  from w have f: "filter (\<lambda>c. re_word c \<or> py_isspace c \<or> c = CHR ''-'') s = s"
    by (induction s) auto
  show ?thesis by (simp add: slugify_def sp m f sub_runs_id [OF ns])
qed

lemma lower_ascii: "ascii c \<Longrightarrow> ascii (py_lower c)"
  by (auto simp: ascii_def py_lower_def Let_def)

lemma slug_char_ascii:
  assumes "slug_char c" and "ascii c"
  shows "az09us c"
proof -
  from assms(1) have w: "re_word c" and "(of_char (py_lower c) :: nat) = of_char c"
    by (simp_all add: slug_char_def)
  then have "\<not> (65 \<le> (of_char c :: nat) \<and> (of_char c :: nat) \<le> 90)"
    by (simp add: of_char_py_lower split: if_splits)
  with w assms(2) show ?thesis
    by (auto simp: ascii_def az09us_def re_word_def py_isalnum_def Let_def)
qed

lemma slugify_ascii: "list_all ascii s \<Longrightarrow> list_all az09us (slugify s)"
  unfolding list_all_iff
proof
  fix c assume a: "\<forall>c \<in> set s. ascii c" and c: "c \<in> set (slugify s)"
  from slugify_slug_chars [of s] c have sc: "slug_char c" by (simp add: list_all_iff)
  from slugify_chars [OF c] a have "ascii c"
    by (auto simp: ascii_def lower_ascii [unfolded ascii_def])
  with sc show "az09us c" by (rule slug_char_ascii)
qed

lemma slugify_spaces: "list_all py_isspace s \<Longrightarrow> slugify s = []"
  by (simp add: slugify_def strip_spaces)

lemma sub_runs_all_sep:
  assumes "xs \<noteq> []" and "list_all sep xs"
  shows "sub_runs xs = ''_''"
proof (cases xs)
  case Nil
  with assms(1) show ?thesis by simp
next
  case (Cons c cs)
  with assms(2) have "sep c" and "dropWhile sep cs = []"
    by (simp_all add: dropWhile_all list_all_iff)
  with Cons show ?thesis by (simp add: dropWhile_all)
qed

lemma slugify_hyphens:
  assumes "list_all sep s" and "CHR ''-'' \<in> set s"
  shows "slugify s = ''_''"
proof -
  have "\<not> py_isspace (CHR ''-'')" by (simp add: py_isspace_def)
  with assms(2) have ne: "strip s \<noteq> []" using in_strip [of "CHR ''-''" s] by auto
  from assms(1) have all: "list_all sep (strip s)"
    using set_strip [of s] by (auto simp: list_all_iff)
  then have m: "map py_lower (strip s) = strip s"
    by (induction "strip s") (auto simp: list_all_iff sep_lower_fixed intro: map_idI)
  from all have f: "filter (\<lambda>c. re_word c \<or> py_isspace c \<or> c = CHR ''-'') (strip s) = strip s"
    by (auto simp: list_all_iff sep_def intro!: filter_True)
  show ?thesis
    by (simp add: slugify_def m f sub_runs_all_sep [OF ne all])
qed

text \<open>
  Claim C4, as the code has it: \<open>slugify\<close> is idempotent, and its result is made of word
  characters that \<open>lower\<close> leaves alone; on ASCII input these are exactly the characters
  of \<open>^[a-z0-9_]*$\<close>.  (Determinism is that \<open>slugify\<close> is a function.)
\<close>

theorem slugify_idempotent:
  "slugify (slugify x) = slugify x \<and> list_all slug_char (slugify x) \<and>
   (list_all ascii x \<longrightarrow> list_all az09us (slugify x))"
  by (simp add: slugify_fixed slugify_slug_chars slugify_ascii)

text \<open>The theorem at \<open>Hornsgatan 108 - Gard\<close>, an ASCII street name.\<close>

theorem slugify_idempotent_witness:
  "list_all ascii ''Hornsgatan 108 - Gard'' \<and>
   slugify ''Hornsgatan 108 - Gard'' = ''hornsgatan_108_gard'' \<and>
   slugify (slugify ''Hornsgatan 108 - Gard'') = slugify ''Hornsgatan 108 - Gard'' \<and>
   list_all az09us (slugify ''Hornsgatan 108 - Gard'')"
proof -
  have h: "list_all ascii ''Hornsgatan 108 - Gard''" by code_simp
  have v: "slugify ''Hornsgatan 108 - Gard'' = ''hornsgatan_108_gard''" by code_simp
  from h v slugify_idempotent [of "''Hornsgatan 108 - Gard''"] show ?thesis by blast
qed

text \<open>
  Claim C4 as stated fails outside ASCII: \<open>\w\<close> matches every Unicode letter, so the slug
  of a street name with an o-umlaut (code point 246) keeps the letter.
\<close>

theorem slug_pattern_counterexample:
  "slugify (''G'' @ [CHR 0xF6] @ ''ransgatan 12'') = ''g'' @ [CHR 0xF6] @ ''ransgatan_12'' \<and>
   \<not> list_all az09us (slugify (''G'' @ [CHR 0xF6] @ ''ransgatan 12''))"
  by code_simp

text \<open>
  Claim C9, as the code has it: a street that is empty or all whitespace has the empty
  slug, hence the file \<open>data/.csv\<close> and the collection names \<open>air_quality_\<close> and
  \<open>weather_\<close>; a street of whitespace and hyphens with at least one hyphen has the slug
  \<open>_\<close>, hence \<open>data/_.csv\<close>, \<open>air_quality__\<close> and \<open>weather__\<close>.  \<open>slugify\<close> is total: no
  error is raised in either case.
\<close>

theorem blank_street_slug:
  "(list_all py_isspace street \<longrightarrow>
      slugify street = [] \<and>
      air_quality_csv_path root_dir street = root_dir @ ''/data/.csv'' \<and>
      ''air_quality_'' @ slugify street = ''air_quality_'' \<and>
      ''weather_'' @ slugify street = ''weather_'') \<and>
   (list_all sep street \<and> CHR ''-'' \<in> set street \<longrightarrow>
      slugify street = ''_'' \<and>
      air_quality_csv_path root_dir street = root_dir @ ''/data/_.csv'' \<and>
      ''air_quality_'' @ slugify street = ''air_quality__'' \<and>
      ''weather_'' @ slugify street = ''weather__'')"
  by (simp add: slugify_spaces slugify_hyphens air_quality_csv_path_def)

text \<open>The theorem at a street of two spaces and at the street \<open>" - - "\<close>.\<close>

theorem blank_street_slug_witness:
  "list_all py_isspace ''  '' \<and> slugify ''  '' = [] \<and>
   air_quality_csv_path ''/repo'' ''  '' = ''/repo/data/.csv'' \<and>
   list_all sep '' - - '' \<and> CHR ''-'' \<in> set '' - - '' \<and> slugify '' - - '' = ''_'' \<and>
   air_quality_csv_path ''/repo'' '' - - '' = ''/repo/data/_.csv''"
proof -
  have h1: "list_all py_isspace ''  ''" by code_simp
  have h2: "list_all sep '' - - '' \<and> CHR ''-'' \<in> set '' - - ''" by code_simp
  from h1 blank_street_slug [of "''  ''" "''/repo''"]
  have a: "slugify ''  '' = [] \<and> air_quality_csv_path ''/repo'' ''  '' = ''/repo'' @ ''/data/.csv''"
    by blast
  from h2 blank_street_slug [of "'' - - ''" "''/repo''"]
  have b: "slugify '' - - '' = ''_'' \<and>
           air_quality_csv_path ''/repo'' '' - - '' = ''/repo'' @ ''/data/_.csv''"
    by blast
  from h1 h2 a b show ?thesis by simp
qed

text \<open>
  Claim C9 as stated fails for a street made of hyphens: the slug is an underscore, not the
  empty string, and the file and the collections are named after it.
\<close>

theorem hyphen_slug_counterexample:
  "list_all sep ''-'' \<and> slugify ''-'' = ''_'' \<and> slugify ''-'' \<noteq> [] \<and>
   air_quality_csv_path ''/repo'' ''-'' = ''/repo/data/_.csv'' \<and>
   ''air_quality_'' @ slugify ''-'' = ''air_quality__''"
  by code_simp

section \<open>Reasoning about the computations\<close>

lemma andthen_lift_Inr: "andthen (lift (Inr x)) f = f x"
  by (rule ext) (simp add: andthen_def lift_def)

lemma andthen_lift_Inl: "andthen (lift (Inl e)) f = lift (Inl e)"
  by (rule ext) (simp add: andthen_def lift_def)

lemma unchanged_lift: "unchanged_fgs (lift r)"
  by (simp add: unchanged_fgs_def lift_def)

lemma unchanged_ret: "unchanged_fgs (ret x)"
  by (simp add: unchanged_fgs_def ret_def)

lemma unchanged_print: "unchanged_fgs (print ev)"
  by (simp add: unchanged_fgs_def print_def)

lemma unchanged_save_secret: "unchanged_fgs (save_secret env name val)"
  by (auto simp: unchanged_fgs_def save_secret_def andthen_def try_except_def get_secret_def
        delete_secret_def create_secret_def print_def ret_def split: option.splits)

lemmas unchanged = unchanged_lift unchanged_ret unchanged_print unchanged_save_secret

text \<open>
  Two rules to walk down a chain of \<open>andthen\<close>: past a pure step, remembering what it
  returned, and past a step that leaves the feature store alone.
\<close>

lemma fg_spec_lift:
  assumes "\<And>e g. r = Inl e \<Longrightarrow> Q g (Inl e) g"
    and "\<And>x. r = Inr x \<Longrightarrow> fg_spec Q (f x)"
  shows "fg_spec Q (andthen (lift r) f)"
  using assms by (cases r) (auto simp: fg_spec_def andthen_def lift_def)

lemma fg_spec_unch:
  assumes "unchanged_fgs m"
    and "\<And>e g. Q g (Inl e) g"
    and "\<And>x. fg_spec Q (f x)"
  shows "fg_spec Q (andthen m f)"
  unfolding fg_spec_def
proof
  fix s
  obtain r s' where ms: "m s = (r, s')" by (cases "m s")
  with assms(1) have g: "feature_groups s' = feature_groups s"
    by (auto simp: unchanged_fgs_def dest: spec [of _ s])
  show "Q (feature_groups s) (fst (andthen m f s)) (feature_groups (snd (andthen m f s)))"
  proof (cases r)
    case (Inl e)
    with ms g assms(2) show ?thesis by (simp add: andthen_def)
  next
    case (Inr x)
    with ms g assms(3) [of x] show ?thesis
      by (auto simp: andthen_def fg_spec_def dest: spec [of _ s'])
  qed
qed

subsection \<open>Nothing printed or stored is lost\<close>

lemma extends_refl: "extends s s"
  by (simp add: extends_def)

lemma extends_trans: "extends s t \<Longrightarrow> extends t u \<Longrightarrow> extends s u"
  unfolding extends_def by (meson prefix_order.trans)

lemma extends_stdout:
  "feature_groups t = feature_groups s \<Longrightarrow> prefix (stdout s) (stdout t) \<Longrightarrow> extends s t"
  by (simp add: extends_def rows_of_def)

lemma keeps_lift: "keeps_history (lift r)"
  by (simp add: keeps_history_def lift_def extends_refl)

lemma keeps_ret: "keeps_history (ret x)"
  by (simp add: keeps_history_def ret_def extends_refl)

lemma keeps_print: "keeps_history (print ev)"
  by (simp add: keeps_history_def print_def extends_stdout)

lemma keeps_andthen:
  assumes "keeps_history m" and "\<And>x. keeps_history (f x)"
  shows "keeps_history (andthen m f)"
  unfolding keeps_history_def
proof
  fix s
  obtain r s' where ms: "m s = (r, s')" by (cases "m s")
  with assms(1) have e: "extends s s'" by (auto simp: keeps_history_def dest: spec [of _ s])
  show "extends s (snd (andthen m f s))"
  proof (cases r)
    case (Inl e)
    with ms e show ?thesis by (simp add: andthen_def)
  next
    case (Inr x)
    from assms(2) [of x] have "extends s' (snd (f x s'))" by (simp add: keeps_history_def)
    with e ms Inr show ?thesis by (auto simp: andthen_def intro: extends_trans)
  qed
qed

lemma keeps_try_except:
  assumes "keeps_history m" and "\<And>e. keeps_history (h e)"
  shows "keeps_history (try_except m h)"
  unfolding keeps_history_def
proof
  fix s
  obtain r s' where ms: "m s = (r, s')" by (cases "m s")
  with assms(1) have e: "extends s s'" by (auto simp: keeps_history_def dest: spec [of _ s])
  show "extends s (snd (try_except m h s))"
  proof (cases r)
    case (Inl x)
    from assms(2) [of x] have "extends s' (snd (h x s'))" by (simp add: keeps_history_def)
    with e ms Inl show ?thesis by (auto simp: try_except_def intro: extends_trans)
  next
    case (Inr x)
    with ms e show ?thesis by (simp add: try_except_def)
  qed
qed

lemma keeps_get_secret: "keeps_history (get_secret env name)"
  by (simp add: keeps_history_def get_secret_def extends_refl)

lemma keeps_delete_secret: "keeps_history (delete_secret env name)"
  by (simp add: keeps_history_def delete_secret_def extends_refl extends_stdout)

lemma keeps_create_secret: "keeps_history (create_secret env name val)"
  by (simp add: keeps_history_def create_secret_def extends_refl extends_stdout)

lemma keeps_save_secret: "keeps_history (save_secret env name val)"
  unfolding save_secret_def
  by (intro keeps_andthen keeps_try_except keeps_get_secret keeps_create_secret keeps_ret)
     (auto split: option.splits intro: keeps_ret keeps_andthen keeps_delete_secret keeps_print)

lemma keeps_get_or_create: "keeps_history (get_or_create_feature_group name d v pk et su)"
  by (auto simp: keeps_history_def get_or_create_feature_group_def extends_def rows_of_def
        fg_rows_def split: option.splits)

lemma keeps_get_feature_group: "keeps_history (get_feature_group name)"
  by (auto simp: keeps_history_def get_feature_group_def extends_refl split: option.splits)

lemma keeps_insert_rows: "keeps_history (insert_rows env h df)"
  by (auto simp: keeps_history_def insert_rows_def extends_def rows_of_def fg_rows_def
        split: option.splits)

lemmas keeps_intros = keeps_andthen keeps_lift keeps_ret keeps_print keeps_save_secret
  keeps_get_or_create keeps_get_feature_group keeps_insert_rows

lemma keeps_backfill: "keeps_history (process_sensor_backfill env root_dir row aq_api_key today)"
  unfolding process_sensor_backfill_def by (intro keeps_intros)

lemma keeps_pipeline: "keeps_history (process_sensor_pipeline env row aq_api_key today)"
  unfolding process_sensor_pipeline_def by (intro keeps_intros)

lemma keeps_on_error: "keeps_history (on_error row e)"
  by (simp add: on_error_def keeps_print)


lemma sensor_loop_extends:
  assumes "\<And>row. keeps_history (proc row)"
  shows "extends s (sensor_loop proc rs s)"
proof (induction rs arbitrary: s)
  case Nil
  show ?case by (simp add: extends_refl)
next
  case (Cons r rs)
  have "keeps_history (try_except (proc r) (on_error r))"
    by (intro keeps_try_except assms keeps_on_error)
  then have "extends s (snd (try_except (proc r) (on_error r) s))"
    by (simp add: keeps_history_def)
  with Cons.IH show ?case by (auto intro: extends_trans)
qed


lemma sensor_loop_append:
  "sensor_loop proc (rs1 @ rs2) s = sensor_loop proc rs2 (sensor_loop proc rs1 s)"
  by (induction rs1 arbitrary: s) auto



lemma get_aqicn_api_key_state: "snd (get_aqicn_api_key env k s) = s"
  by (auto simp: get_aqicn_api_key_def ret_def try_except_def andthen_def get_secret_def lift_def
        split: option.splits)



subsection \<open>Running the scripts in the small world\<close>

lemmas comp_defs = andthen_def lift_def ret_def print_def save_secret_def try_except_def
  get_secret_def delete_secret_def create_secret_def get_or_create_feature_group_def
  get_feature_group_def insert_rows_def

lemma demo_row_fields:
  "row_str demo_row ''AQICN_URL'' = Inr ''https://api.waqi.info/feed/@2850''"
  "row_str demo_row ''country'' = Inr ''austria''"
  "row_str demo_row ''city'' = Inr ''wien''"
  "row_str demo_row ''street'' = Inr ''Schottenfeldgasse''"
  "row_str demo_row ''latitude'' = Inr ''48.2''"
  "row_str demo_row ''longitude'' = Inr ''16.34''"
  by code_simp+

lemma blank_row_fields:
  "row_str blank_row ''AQICN_URL'' = Inr []"
  "row_str blank_row ''country'' = Inr []"
  "row_str blank_row ''city'' = Inr []"
  "row_str blank_row ''street'' = Inr []"
  "row_str blank_row ''latitude'' = Inr []"
  "row_str blank_row ''longitude'' = Inr []"
  "row_get blank_row ''city'' [] = []"
  "row_get blank_row ''street'' [] = []"
  by code_simp+

lemma demo_slug:
  "slugify ''Schottenfeldgasse'' = ''schottenfeldgasse''"
  "air_quality_csv_path ''/repo'' ''Schottenfeldgasse'' = ''/repo/data/schottenfeldgasse.csv''"
  "air_quality_csv_path ''/repo'' [] = ''/repo/data/.csv''"
  by code_simp+

lemma demo_frames:
  "select_columns [''date'', ''pm25''] demo_aq_csv =
     Inr [[(''date'', Ts 19000 0), (''pm25'', Num 12)],
          [(''date'', Ts 19001 0), (''pm25'', NaN)],
          [(''date'', Ts 19002 0), (''pm25'', Num 7)]]"
  "astype_float ''pm25'' [[(''date'', Ts 19000 0), (''pm25'', Num 12)],
          [(''date'', Ts 19001 0), (''pm25'', NaN)],
          [(''date'', Ts 19002 0), (''pm25'', Num 7)]] =
     Inr [[(''date'', Ts 19000 0), (''pm25'', Num 12)],
          [(''date'', Ts 19001 0), (''pm25'', NaN)],
          [(''date'', Ts 19002 0), (''pm25'', Num 7)]]"
  "dropna [[(''date'', Ts 19000 0), (''pm25'', Num 12)],
          [(''date'', Ts 19001 0), (''pm25'', NaN)],
          [(''date'', Ts 19002 0), (''pm25'', Num 7)]] =
     [[(''date'', Ts 19000 0), (''pm25'', Num 12)],
      [(''date'', Ts 19002 0), (''pm25'', Num 7)]]"
  "assign ''url'' (Str ''https://api.waqi.info/feed/@2850'')
     (assign ''street'' (Str ''Schottenfeldgasse'')
       (assign ''city'' (Str ''wien'') (assign ''country'' (Str ''austria'')
          [[(''date'', Ts 19000 0), (''pm25'', Num 12)],
           [(''date'', Ts 19002 0), (''pm25'', Num 7)]]))) = demo_df_aq"
  "earliest_date demo_df_aq = Inr 19000"
  "astype_float ''pm25'' demo_df_aq = Inr demo_df_aq"
  by code_simp+

lemma demo_validation:
  "validate ge_suite_air_quality demo_df_aq"
  "validate ge_suite_weather (demo_weather 0)"
  "\<not> validate ge_suite_weather (demo_weather (- 5))"
  by code_simp+

lemmas demo_evals = demo_row_fields blank_row_fields demo_slug demo_frames demo_validation

lemma demo_backfill_ok:
  "fst (process_sensor_backfill (demo_env STRICT 0) ''/repo'' demo_row ''key'' 20000 empty_state)
     = Inr ()"
  by (simp add: process_sensor_backfill_def comp_defs demo_env_def empty_state_def demo_evals)

lemma demo_backfill_rejected:
  "fst (process_sensor_backfill (demo_env STRICT (- 5)) ''/repo'' demo_row ''key'' 20000 empty_state)
     = Inl (DataValidationException ''weather_schottenfeldgasse'')"
  by (simp add: process_sensor_backfill_def comp_defs demo_env_def empty_state_def demo_evals)

lemma demo_backfill_rejected_rows:
  "rows_of (snd (process_sensor_backfill (demo_env STRICT (- 5)) ''/repo'' demo_row ''key'' 20000
                   empty_state)) ''air_quality_schottenfeldgasse'' = demo_df_aq"
  "rows_of (snd (process_sensor_backfill (demo_env STRICT (- 5)) ''/repo'' demo_row ''key'' 20000
                   empty_state)) ''weather_schottenfeldgasse'' = []"
  by (simp_all add: process_sensor_backfill_def comp_defs demo_env_def empty_state_def demo_evals
        rows_of_def fg_rows_def)

lemma demo_backfill_always_rows:
  "rows_of (snd (process_sensor_backfill (demo_env ALWAYS (- 5)) ''/repo'' demo_row ''key'' 20000
                   empty_state)) ''weather_schottenfeldgasse'' = demo_weather (- 5)"
  by (simp add: process_sensor_backfill_def comp_defs demo_env_def empty_state_def demo_evals
        rows_of_def fg_rows_def)

lemma blank_backfill_fails:
  "process_sensor_backfill (demo_env STRICT 0) ''/repo'' blank_row ''key'' 20000 s =
     (Inl (FileNotFoundError ''/repo/data/.csv''),
      s\<lparr>stdout := stdout s @ [ProcessingSensor [] []]\<rparr>)"
  by (simp add: process_sensor_backfill_def comp_defs demo_env_def demo_evals)

lemma demo_pipeline_frames:
  "astype_float ''pm25'' [[(''pm25'', Num 15), (''date'', Ts 20000 0)]] =
     Inr [[(''pm25'', Num 15), (''date'', Ts 20000 0)]]"
  "assign ''url'' (Str ''https://api.waqi.info/feed/@2850'')
     (assign ''street'' (Str ''Schottenfeldgasse'')
       (assign ''city'' (Str ''wien'') (assign ''country'' (Str ''austria'')
          [[(''pm25'', Num 15), (''date'', Ts 20000 0)]]))) = demo_aq_today"
  "validate ge_suite_air_quality demo_aq_today"
  "validate ge_suite_weather demo_daily"
  by code_simp+

lemma demo_daily_weather:
  "daily_weather ''wien'' demo_hourly = Inr demo_daily"
  "daily_weather ''wien'' half_hourly = Inr []"
  by (simp_all add: daily_weather_def between_time_def time_micros_def assign_def
        normalize_date_def demo_hourly_def half_hourly_def hourly_sample_def demo_daily_def
        daily_sample_def)

lemma demo_pipeline_ok:
  "fst (process_sensor_pipeline (demo_env STRICT 0) demo_row ''key'' 20000 seeded_state) = Inr ()"
  by (simp add: process_sensor_pipeline_def comp_defs demo_env_def seeded_state_def demo_evals
        demo_pipeline_frames demo_daily_weather)

lemma demo_pipeline_rows:
  "rows_of (snd (process_sensor_pipeline (demo_env STRICT 0) demo_row ''key'' 20000 seeded_state))
     ''weather_schottenfeldgasse'' = demo_daily"
  "rows_of (snd (process_sensor_pipeline (demo_env STRICT 0) demo_row ''key'' 20000 seeded_state))
     ''air_quality_schottenfeldgasse'' = demo_aq_today"
  by (simp_all add: process_sensor_pipeline_def comp_defs demo_env_def seeded_state_def demo_evals
        demo_pipeline_frames demo_daily_weather rows_of_def fg_rows_def)

section \<open>Collection names\<close>

lemma backfill_tail_names_cast:
  "fg_spec (\<lambda>g r g'. (r = Inr () \<longrightarrow> aq \<in> dom g' \<and> wx \<in> dom g') \<and>
                      (\<forall>n. n \<noteq> aq \<and> n \<noteq> wx \<longrightarrow> g' n = g n))
     (andthen (get_or_create_feature_group aq d1 v1 pk1 et1 su1) (\<lambda>air_quality_fg.
      andthen (insert_rows env air_quality_fg df_aq) (\<lambda>_.
      andthen (get_or_create_feature_group wx d2 v2 pk2 et2 su2) (\<lambda>weather_fg.
      andthen (insert_rows env weather_fg weather_df) (\<lambda>_.
      print ev)))))"
  by (auto simp: fg_spec_def andthen_def get_or_create_feature_group_def insert_rows_def print_def
        split: option.splits)

lemma backfill_tail_names:
  "fg_spec (\<lambda>g r g'. (r = Inr () \<longrightarrow> aq \<in> dom g' \<and> wx \<in> dom g') \<and>
                      (\<forall>n. n \<noteq> aq \<and> n \<noteq> wx \<longrightarrow> g' n = g n))
     (andthen (get_or_create_feature_group aq d1 v1 pk1 et1 su1) (\<lambda>air_quality_fg.
      andthen (lift cast) (\<lambda>df_aq.
      andthen (insert_rows env air_quality_fg df_aq) (\<lambda>_.
      andthen (get_or_create_feature_group wx d2 v2 pk2 et2 su2) (\<lambda>weather_fg.
      andthen (insert_rows env weather_fg weather_df) (\<lambda>_.
      print ev))))))"
proof (cases cast)
  case (Inl e)
  then show ?thesis
    by (auto simp: andthen_lift_Inl fg_spec_def andthen_def get_or_create_feature_group_def
          lift_def split: option.splits)
next
  case (Inr df_aq)
  then show ?thesis
    by (simp add: andthen_lift_Inr backfill_tail_names_cast)
qed

lemma backfill_names:
  assumes "row_str row ''street'' = Inr street"
  shows "fg_spec (\<lambda>g r g'.
            (r = Inr () \<longrightarrow> ''air_quality_'' @ slugify street \<in> dom g' \<and>
                            ''weather_'' @ slugify street \<in> dom g') \<and>
            (\<forall>n. n \<noteq> ''air_quality_'' @ slugify street \<and> n \<noteq> ''weather_'' @ slugify street
                  \<longrightarrow> g' n = g n))
          (process_sensor_backfill env root_dir row aq_api_key today)"
  unfolding process_sensor_backfill_def
  apply (insert assms)
  apply ((rule fg_spec_lift, simp) | (rule fg_spec_unch, simp add: unchanged, simp))+
  apply clarsimp
  apply (rule backfill_tail_names)
  done

lemma pipeline_tail_names:
  "fg_spec (\<lambda>g r g'. (r = Inr () \<longrightarrow> aq \<in> dom g \<and> wx \<in> dom g) \<and> dom g' = dom g \<and>
                      (\<forall>n. n \<noteq> aq \<and> n \<noteq> wx \<longrightarrow> g' n = g n))
     (andthen (get_feature_group aq) (\<lambda>aq_fg.
      andthen (get_feature_group wx) (\<lambda>wx_fg.
      andthen (insert_rows env aq_fg aq_today_df) (\<lambda>_.
      andthen (insert_rows env wx_fg daily_df) (\<lambda>_.
      print ev)))))"
  by (auto simp: fg_spec_def andthen_def get_feature_group_def insert_rows_def print_def
        split: option.splits)

lemma pipeline_names:
  assumes "row_str row ''street'' = Inr street"
  shows "fg_spec (\<lambda>g r g'.
            (r = Inr () \<longrightarrow> ''air_quality_'' @ slugify street \<in> dom g \<and>
                            ''weather_'' @ slugify street \<in> dom g) \<and>
            dom g' = dom g \<and>
            (\<forall>n. n \<noteq> ''air_quality_'' @ slugify street \<and> n \<noteq> ''weather_'' @ slugify street
                  \<longrightarrow> g' n = g n))
          (process_sensor_pipeline env row aq_api_key today)"
  unfolding process_sensor_pipeline_def
  apply (insert assms)
  apply ((rule fg_spec_lift, simp) | (rule fg_spec_unch, simp add: unchanged, simp))+
  apply clarsimp
  apply (rule pipeline_tail_names)
  done

subsection \<open>The single-sensor backfill\<close>

lemma unchanged_validate_api_token:
  "unchanged_fgs (validate_api_token env aqicn_url country city street today api_key)"
  by (auto simp: unchanged_fgs_def validate_api_token_def try_except_def andthen_def lift_def
        print_def split: sum.splits error.splits)

lemma script_tail_names_cast:
  "fg_spec (\<lambda>g r g'. (r = Inr () \<longrightarrow> aq \<in> dom g' \<and> wx \<in> dom g') \<and>
                      (\<forall>n. n \<noteq> aq \<and> n \<noteq> wx \<longrightarrow> g' n = g n))
     (andthen (get_or_create_feature_group aq d1 v1 pk1 et1 su1) (\<lambda>air_quality_fg.
      andthen (print e0) (\<lambda>_.
      andthen (insert_rows env air_quality_fg df_aq) (\<lambda>_.
      andthen (update_feature_description air_quality_fg a1 b1) (\<lambda>_.
      andthen (update_feature_description air_quality_fg a2 b2) (\<lambda>_.
      andthen (update_feature_description air_quality_fg a3 b3) (\<lambda>_.
      andthen (update_feature_description air_quality_fg a4 b4) (\<lambda>_.
      andthen (update_feature_description air_quality_fg a5 b5) (\<lambda>_.
      andthen (get_or_create_feature_group wx d2 v2 pk2 et2 su2) (\<lambda>weather_fg.
      andthen (insert_rows env weather_fg weather_df) (\<lambda>_.
      andthen (update_feature_description weather_fg c1 f1) (\<lambda>_.
      andthen (update_feature_description weather_fg c2 f2) (\<lambda>_.
      andthen (update_feature_description weather_fg c3 f3) (\<lambda>_.
      andthen (update_feature_description weather_fg c4 f4) (\<lambda>_.
      andthen (update_feature_description weather_fg c5 f5) (\<lambda>_.
      andthen (update_feature_description weather_fg c6 f6) (\<lambda>_.
      print ev)))))))))))))))))"
  by (auto simp: fg_spec_def andthen_def get_or_create_feature_group_def insert_rows_def print_def
        update_feature_description_def split: option.splits)


lemma script_tail_names:
  "fg_spec (\<lambda>g r g'. (r = Inr () \<longrightarrow> aq \<in> dom g' \<and> wx \<in> dom g') \<and>
                      (\<forall>n. n \<noteq> aq \<and> n \<noteq> wx \<longrightarrow> g' n = g n))
     (andthen (get_or_create_feature_group aq d1 v1 pk1 et1 su1) (\<lambda>air_quality_fg.
      andthen (lift cast) (\<lambda>df_aq.
      andthen (print e0) (\<lambda>_.
      andthen (insert_rows env air_quality_fg df_aq) (\<lambda>_.
      andthen (update_feature_description air_quality_fg a1 b1) (\<lambda>_.
      andthen (update_feature_description air_quality_fg a2 b2) (\<lambda>_.
      andthen (update_feature_description air_quality_fg a3 b3) (\<lambda>_.
      andthen (update_feature_description air_quality_fg a4 b4) (\<lambda>_.
      andthen (update_feature_description air_quality_fg a5 b5) (\<lambda>_.
      andthen (get_or_create_feature_group wx d2 v2 pk2 et2 su2) (\<lambda>weather_fg.
      andthen (insert_rows env weather_fg weather_df) (\<lambda>_.
      andthen (update_feature_description weather_fg c1 f1) (\<lambda>_.
      andthen (update_feature_description weather_fg c2 f2) (\<lambda>_.
      andthen (update_feature_description weather_fg c3 f3) (\<lambda>_.
      andthen (update_feature_description weather_fg c4 f4) (\<lambda>_.
      andthen (update_feature_description weather_fg c5 f5) (\<lambda>_.
      andthen (update_feature_description weather_fg c6 f6) (\<lambda>_.
      print ev))))))))))))))))))"
proof (cases cast)
  case (Inl e)
  then show ?thesis
    by (auto simp: andthen_lift_Inl fg_spec_def andthen_def get_or_create_feature_group_def
          lift_def split: option.splits)
next
  case (Inr df_aq)
  then show ?thesis
    by (simp add: andthen_lift_Inr script_tail_names_cast)
qed

lemma script_names:
  "fg_spec (\<lambda>g r g'. (r = Inr () \<longrightarrow> ''air_quality'' \<in> dom g' \<and> ''weather'' \<in> dom g') \<and>
                      (\<forall>n. n \<noteq> ''air_quality'' \<and> n \<noteq> ''weather'' \<longrightarrow> g' n = g n))
     (feature_backfill_script env root_dir api_key aqicn_url country city street today)"
  unfolding feature_backfill_script_def
  apply ((rule fg_spec_lift, simp)
         | (rule fg_spec_unch, simp add: unchanged unchanged_validate_api_token, simp))+
  apply (rule script_tail_names)
  done

lemma feature_backfill_names:
  "(fst (feature_backfill env root_dir k aqicn_url country city street today s) = 0 \<longrightarrow>
      ''air_quality''
        \<in> dom (feature_groups (snd (feature_backfill env root_dir k aqicn_url country city street
                                       today s))) \<and>
      ''weather''
        \<in> dom (feature_groups (snd (feature_backfill env root_dir k aqicn_url country city street
                                       today s)))) \<and>
   (\<forall>n. n \<noteq> ''air_quality'' \<and> n \<noteq> ''weather'' \<longrightarrow>
      feature_groups (snd (feature_backfill env root_dir k aqicn_url country city street today s)) n
        = feature_groups s n)"
proof (cases k)
  case None
  then show ?thesis by (simp add: feature_backfill_def print_def)
next
  case (Some api_key)
  obtain r s' where run: "feature_backfill_script env root_dir api_key aqicn_url country city street
                            today s = (r, s')"
    by (cases "feature_backfill_script env root_dir api_key aqicn_url country city street today s")
  from script_names [of env root_dir api_key aqicn_url country city street today,
      unfolded fg_spec_def, rule_format, of s] run
  have "(r = Inr () \<longrightarrow> ''air_quality'' \<in> dom (feature_groups s') \<and>
                          ''weather'' \<in> dom (feature_groups s')) \<and>
        (\<forall>n. n \<noteq> ''air_quality'' \<and> n \<noteq> ''weather'' \<longrightarrow> feature_groups s' n = feature_groups s n)"
    by simp
  with Some run show ?thesis
    by (cases r) (auto simp: feature_backfill_def print_def)
qed

lemma slugged_names_differ:
  "''air_quality_'' @ x \<noteq> ''air_quality''" "''air_quality_'' @ x \<noteq> ''weather''"
  "''weather_'' @ x \<noteq> ''weather''" "''weather_'' @ x \<noteq> ''air_quality''"
  by simp_all

lemma demo_script_ok:
  "fst (feature_backfill (demo_env STRICT 0) ''/repo'' (Some ''key'')
          ''https://api.waqi.info/feed/@2850'' ''austria'' ''wien'' ''Schottenfeldgasse'' 20000
          empty_state) = 0"
  by (simp add: feature_backfill_def feature_backfill_script_def validate_api_token_def
        update_feature_description_def comp_defs demo_env_def empty_state_def demo_evals)


lemma demo_pipeline_not_found:
  assumes "feature_groups t ''air_quality_schottenfeldgasse'' = None"
  shows "fst (process_sensor_pipeline (demo_env STRICT 0) demo_row ''key'' 20000 t)
           = Inl (RestAPIError ''air_quality_schottenfeldgasse'')"
  using assms
  by (simp add: process_sensor_pipeline_def comp_defs demo_env_def demo_evals
        demo_pipeline_frames demo_daily_weather)

text \<open>
  Claim C5, as the code has it.  For a sensor of the registry with street \<open>street\<close> (the
  registry field, stripped), the registry's backfill that completes leaves collections
  named \<open>air_quality_<slug>\<close> and \<open>weather_<slug>\<close> and touches no collection of another
  name; a daily update that completes found collections of exactly these two names,
  creates none and touches no other: these two scripts address the same collections.
  The single-sensor backfill that completes leaves collections named \<open>air_quality\<close> and
  \<open>weather\<close>, whatever the street, and touches no other; no name the daily update looks
  up is one of these two.
\<close>

theorem collection_names:
  assumes "row_str row ''street'' = Inr street"
  shows
    "(fst (process_sensor_backfill env root_dir row aq_api_key today s) = Inr () \<longrightarrow>
        ''air_quality_'' @ slugify street
          \<in> dom (feature_groups (snd (process_sensor_backfill env root_dir row aq_api_key today s))) \<and>
        ''weather_'' @ slugify street
          \<in> dom (feature_groups (snd (process_sensor_backfill env root_dir row aq_api_key today s)))) \<and>
     (\<forall>n. n \<noteq> ''air_quality_'' @ slugify street \<and> n \<noteq> ''weather_'' @ slugify street \<longrightarrow>
        feature_groups (snd (process_sensor_backfill env root_dir row aq_api_key today s)) n
          = feature_groups s n) \<and>
     (fst (process_sensor_pipeline env row aq_api_key today t) = Inr () \<longrightarrow>
        ''air_quality_'' @ slugify street \<in> dom (feature_groups t) \<and>
        ''weather_'' @ slugify street \<in> dom (feature_groups t)) \<and>
     dom (feature_groups (snd (process_sensor_pipeline env row aq_api_key today t)))
       = dom (feature_groups t) \<and>
     (\<forall>n. n \<noteq> ''air_quality_'' @ slugify street \<and> n \<noteq> ''weather_'' @ slugify street \<longrightarrow>
        feature_groups (snd (process_sensor_pipeline env row aq_api_key today t)) n
          = feature_groups t n) \<and>
     (fst (feature_backfill env root_dir k aqicn_url country city settings_street today u) = 0 \<longrightarrow>
        ''air_quality''
          \<in> dom (feature_groups (snd (feature_backfill env root_dir k aqicn_url country city
                                         settings_street today u))) \<and>
        ''weather''
          \<in> dom (feature_groups (snd (feature_backfill env root_dir k aqicn_url country city
                                         settings_street today u)))) \<and>
     (\<forall>n. n \<noteq> ''air_quality'' \<and> n \<noteq> ''weather'' \<longrightarrow>
        feature_groups (snd (feature_backfill env root_dir k aqicn_url country city
                               settings_street today u)) n
          = feature_groups u n) \<and>
     ''air_quality_'' @ slugify street \<noteq> ''air_quality'' \<and>
     ''air_quality_'' @ slugify street \<noteq> ''weather'' \<and>
     ''weather_'' @ slugify street \<noteq> ''weather'' \<and>
     ''weather_'' @ slugify street \<noteq> ''air_quality''"
proof -
  note a = backfill_names [OF assms, of env root_dir aq_api_key today, unfolded fg_spec_def,
      rule_format, of s]
  note b = pipeline_names [OF assms, of env aq_api_key today, unfolded fg_spec_def, rule_format,
      of t]
  note c = feature_backfill_names [of env root_dir k aqicn_url country city settings_street
      today u]
  from a b c show ?thesis
    by (simp add: slugged_names_differ)
qed

text \<open>
  The theorem at the demo sensor: the registry's backfill into the empty store, a daily
  update on its two collections, and the single-sensor backfill into the empty store.
\<close>

theorem collection_names_witness:
  "row_str demo_row ''street'' = Inr ''Schottenfeldgasse'' \<and>
   fst (process_sensor_backfill (demo_env STRICT 0) ''/repo'' demo_row ''key'' 20000 empty_state)
     = Inr () \<and>
   ''air_quality_schottenfeldgasse''
     \<in> dom (feature_groups (snd (process_sensor_backfill (demo_env STRICT 0) ''/repo'' demo_row
                                   ''key'' 20000 empty_state))) \<and>
   ''weather_schottenfeldgasse''
     \<in> dom (feature_groups (snd (process_sensor_backfill (demo_env STRICT 0) ''/repo'' demo_row
                                   ''key'' 20000 empty_state))) \<and>
   fst (process_sensor_pipeline (demo_env STRICT 0) demo_row ''key'' 20000 seeded_state) = Inr () \<and>
   ''air_quality_schottenfeldgasse'' \<in> dom (feature_groups seeded_state) \<and>
   ''weather_schottenfeldgasse'' \<in> dom (feature_groups seeded_state) \<and>
   fst (feature_backfill (demo_env STRICT 0) ''/repo'' (Some ''key'')
          ''https://api.waqi.info/feed/@2850'' ''austria'' ''wien'' ''Schottenfeldgasse'' 20000
          empty_state) = 0 \<and>
   ''air_quality''
     \<in> dom (feature_groups (snd (feature_backfill (demo_env STRICT 0) ''/repo'' (Some ''key'')
          ''https://api.waqi.info/feed/@2850'' ''austria'' ''wien'' ''Schottenfeldgasse'' 20000
          empty_state))) \<and>
   ''weather''
     \<in> dom (feature_groups (snd (feature_backfill (demo_env STRICT 0) ''/repo'' (Some ''key'')
          ''https://api.waqi.info/feed/@2850'' ''austria'' ''wien'' ''Schottenfeldgasse'' 20000
          empty_state)))"
proof -
  have h: "row_str demo_row ''street'' = Inr ''Schottenfeldgasse''"
    by (rule demo_row_fields)
  from collection_names [OF h, where env = "demo_env STRICT 0" and root_dir = "''/repo''"
      and aq_api_key = "''key''" and today = 20000 and s = empty_state and t = seeded_state
      and k = "Some ''key''" and aqicn_url = "''https://api.waqi.info/feed/@2850''"
      and country = "''austria''" and city = "''wien''"
      and settings_street = "''Schottenfeldgasse''" and u = empty_state]
    demo_backfill_ok demo_pipeline_ok demo_script_ok h
  show ?thesis by (simp add: demo_slug)
qed

text \<open>
  Claim C5 as stated fails for the single-sensor backfill: run for the demo sensor into the
  empty store, it completes and leaves the collections \<open>air_quality\<close> and \<open>weather\<close>, and
  none under the names with the slug; the daily update of the same sensor on that store
  fails when it looks up \<open>air_quality_schottenfeldgasse\<close>.
\<close>

theorem fixed_names_counterexample:
  "fst (feature_backfill (demo_env STRICT 0) ''/repo'' (Some ''key'')
          ''https://api.waqi.info/feed/@2850'' ''austria'' ''wien'' ''Schottenfeldgasse'' 20000
          empty_state) = 0 \<and>
   ''air_quality''
     \<in> dom (feature_groups (snd (feature_backfill (demo_env STRICT 0) ''/repo'' (Some ''key'')
          ''https://api.waqi.info/feed/@2850'' ''austria'' ''wien'' ''Schottenfeldgasse'' 20000
          empty_state))) \<and>
   ''weather''
     \<in> dom (feature_groups (snd (feature_backfill (demo_env STRICT 0) ''/repo'' (Some ''key'')
          ''https://api.waqi.info/feed/@2850'' ''austria'' ''wien'' ''Schottenfeldgasse'' 20000
          empty_state))) \<and>
   slugify ''Schottenfeldgasse'' = ''schottenfeldgasse'' \<and>
   ''air_quality_'' @ slugify ''Schottenfeldgasse''
     \<notin> dom (feature_groups (snd (feature_backfill (demo_env STRICT 0) ''/repo'' (Some ''key'')
          ''https://api.waqi.info/feed/@2850'' ''austria'' ''wien'' ''Schottenfeldgasse'' 20000
          empty_state))) \<and>
   ''weather_'' @ slugify ''Schottenfeldgasse''
     \<notin> dom (feature_groups (snd (feature_backfill (demo_env STRICT 0) ''/repo'' (Some ''key'')
          ''https://api.waqi.info/feed/@2850'' ''austria'' ''wien'' ''Schottenfeldgasse'' 20000
          empty_state))) \<and>
   row_str demo_row ''street'' = Inr ''Schottenfeldgasse'' \<and>
   fst (process_sensor_pipeline (demo_env STRICT 0) demo_row ''key'' 20000
          (snd (feature_backfill (demo_env STRICT 0) ''/repo'' (Some ''key'')
             ''https://api.waqi.info/feed/@2850'' ''austria'' ''wien'' ''Schottenfeldgasse'' 20000
             empty_state)))
     = Inl (RestAPIError ''air_quality_schottenfeldgasse'')"
proof -
  let ?L = "snd (feature_backfill (demo_env STRICT 0) ''/repo'' (Some ''key'')
          ''https://api.waqi.info/feed/@2850'' ''austria'' ''wien'' ''Schottenfeldgasse'' 20000
          empty_state)"
  note n = feature_backfill_names [of "demo_env STRICT 0" "''/repo''" "Some ''key''"
      "''https://api.waqi.info/feed/@2850''" "''austria''" "''wien''" "''Schottenfeldgasse''"
      20000 empty_state]
  from n demo_script_ok have in_dom: "''air_quality'' \<in> dom (feature_groups ?L)"
    "''weather'' \<in> dom (feature_groups ?L)" by blast+
  have e: "feature_groups empty_state m = None" for m
    by (simp add: empty_state_def)
  from n have a: "feature_groups ?L ''air_quality_schottenfeldgasse'' = None"
    and w: "feature_groups ?L ''weather_schottenfeldgasse'' = None"
    by (simp_all add: e)
  from a w have out: "''air_quality_schottenfeldgasse'' \<notin> dom (feature_groups ?L)"
    "''weather_schottenfeldgasse'' \<notin> dom (feature_groups ?L)"
    by (simp_all add: domIff)
  have h: "row_str demo_row ''street'' = Inr ''Schottenfeldgasse''"
    by (rule demo_row_fields)
  show ?thesis
    using in_dom out demo_script_ok demo_pipeline_not_found [OF a] h
    by (simp add: demo_slug)
qed

section \<open>Validation and storage\<close>

lemma gate_spec_refl: "gate_spec aq wx g (Inl e) g"
  by (simp add: gate_spec_def)

lemma backfill_tail_gate_cast:
  assumes "validation_ingestion_policy env = STRICT" and "aq \<noteq> wx"
  shows "fg_spec (gate_spec aq wx)
     (andthen (get_or_create_feature_group aq d1 v1 pk1 et1 su1) (\<lambda>air_quality_fg.
      andthen (insert_rows env air_quality_fg df_aq) (\<lambda>_.
      andthen (get_or_create_feature_group wx d2 v2 pk2 et2 su2) (\<lambda>weather_fg.
      andthen (insert_rows env weather_fg weather_df) (\<lambda>_.
      print ev)))))"
  using assms
  by (auto simp: fg_spec_def gate_spec_def andthen_def get_or_create_feature_group_def
        insert_rows_def print_def fg_rows_def fg_suite_def
        split: option.splits)

lemma backfill_tail_gate:
  assumes "validation_ingestion_policy env = STRICT" and "aq \<noteq> wx"
  shows "fg_spec (gate_spec aq wx)
     (andthen (get_or_create_feature_group aq d1 v1 pk1 et1 su1) (\<lambda>air_quality_fg.
      andthen (lift cast) (\<lambda>df_aq.
      andthen (insert_rows env air_quality_fg df_aq) (\<lambda>_.
      andthen (get_or_create_feature_group wx d2 v2 pk2 et2 su2) (\<lambda>weather_fg.
      andthen (insert_rows env weather_fg weather_df) (\<lambda>_.
      print ev))))))"
proof (cases cast)
  case (Inl e)
  then show ?thesis
    by (auto simp: andthen_lift_Inl fg_spec_def gate_spec_def andthen_def
          get_or_create_feature_group_def lift_def fg_rows_def split: option.splits)
next
  case (Inr df_aq)
  then show ?thesis
    by (simp add: andthen_lift_Inr backfill_tail_gate_cast [OF assms])
qed

lemma backfill_gate:
  assumes "row_str row ''street'' = Inr street" and "validation_ingestion_policy env = STRICT"
  shows "fg_spec (gate_spec (''air_quality_'' @ slugify street) (''weather_'' @ slugify street))
          (process_sensor_backfill env root_dir row aq_api_key today)"
  unfolding process_sensor_backfill_def
  apply (insert assms)
  apply ((rule fg_spec_lift, simp add: gate_spec_refl)
         | (rule fg_spec_unch, simp add: unchanged, simp add: gate_spec_refl))+
  apply clarsimp
  apply (rule backfill_tail_gate)
   apply simp_all
  done

text \<open>
  Claim C1, as the code has it.  The backfill does not validate rows itself: the suite is
  attached to the collection and applied by the store when \<open>insert\<close> is called.  With a store
  that rejects a failing batch (\<open>STRICT\<close>): no collection other than the sensor's two is
  touched; a collection only ever receives one whole batch that passed the suite attached
  to it; an air-quality batch that fails stops the sensor with nothing stored in either
  collection; a weather batch that fails is not stored (the air-quality rows, inserted
  before it is looked at, stay).
\<close>

theorem backfill_validation_gate:
  assumes "row_str row ''street'' = Inr street"
    and "validation_ingestion_policy env = STRICT"
  shows
    "(\<forall>n. n \<noteq> ''air_quality_'' @ slugify street \<and> n \<noteq> ''weather_'' @ slugify street \<longrightarrow>
        rows_of (snd (process_sensor_backfill env root_dir row aq_api_key today s)) n
          = rows_of s n) \<and>
     (fst (process_sensor_backfill env root_dir row aq_api_key today s)
        = Inl (DataValidationException (''air_quality_'' @ slugify street)) \<longrightarrow>
        rows_of (snd (process_sensor_backfill env root_dir row aq_api_key today s))
            (''air_quality_'' @ slugify street)
          = rows_of s (''air_quality_'' @ slugify street) \<and>
        rows_of (snd (process_sensor_backfill env root_dir row aq_api_key today s))
            (''weather_'' @ slugify street)
          = rows_of s (''weather_'' @ slugify street)) \<and>
     (fst (process_sensor_backfill env root_dir row aq_api_key today s)
        = Inl (DataValidationException (''weather_'' @ slugify street)) \<longrightarrow>
        rows_of (snd (process_sensor_backfill env root_dir row aq_api_key today s))
            (''weather_'' @ slugify street)
          = rows_of s (''weather_'' @ slugify street)) \<and>
     (\<forall>n. rows_of (snd (process_sensor_backfill env root_dir row aq_api_key today s)) n
            \<noteq> rows_of s n \<longrightarrow>
        (\<exists>df. rows_of (snd (process_sensor_backfill env root_dir row aq_api_key today s)) n
                = rows_of s n @ df \<and>
              validate (suite_of (snd (process_sensor_backfill env root_dir row aq_api_key today s)) n)
                df))"
  using backfill_gate [OF assms, of root_dir aq_api_key today, unfolded fg_spec_def gate_spec_def,
      rule_format, of s]
  unfolding rows_of_def suite_of_def by blast

text \<open>
  The theorem at the demo sensor with a weather batch whose precipitation is \<open>-5\<close>: the
  insert into the weather collection is rejected and that collection stays empty.
\<close>

theorem backfill_validation_gate_witness:
  "row_str demo_row ''street'' = Inr ''Schottenfeldgasse'' \<and>
   validation_ingestion_policy (demo_env STRICT (- 5)) = STRICT \<and>
   fst (process_sensor_backfill (demo_env STRICT (- 5)) ''/repo'' demo_row ''key'' 20000 empty_state)
     = Inl (DataValidationException (''weather_'' @ slugify ''Schottenfeldgasse'')) \<and>
   rows_of (snd (process_sensor_backfill (demo_env STRICT (- 5)) ''/repo'' demo_row ''key'' 20000
                   empty_state)) (''weather_'' @ slugify ''Schottenfeldgasse'')
     = rows_of empty_state (''weather_'' @ slugify ''Schottenfeldgasse'')"
proof -
  have h1: "row_str demo_row ''street'' = Inr ''Schottenfeldgasse''"
    by (rule demo_row_fields)
  have h2: "validation_ingestion_policy (demo_env STRICT (- 5)) = STRICT"
    by (simp add: demo_env_def)
  have h3: "fst (process_sensor_backfill (demo_env STRICT (- 5)) ''/repo'' demo_row ''key'' 20000
                   empty_state)
     = Inl (DataValidationException (''weather_'' @ slugify ''Schottenfeldgasse''))"
    by (simp add: demo_backfill_rejected demo_slug)
  from backfill_validation_gate [OF h1 h2, of "''/repo''" "''key''" 20000 empty_state] h1 h2 h3
  show ?thesis by blast
qed

text \<open>
  Claim C1 as stated fails.  With a rejecting store and a weather batch that fails its
  suite, the sensor's air-quality rows are stored all the same, since they are inserted
  before the weather batch reaches the store; with a store that keeps failing batches
  (\<open>ALWAYS\<close>) the failing weather rows themselves are stored.
\<close>

theorem validation_gate_counterexample:
  "\<not> validate ge_suite_weather (demo_weather (- 5)) \<and>
   fst (process_sensor_backfill (demo_env STRICT (- 5)) ''/repo'' demo_row ''key'' 20000 empty_state)
     = Inl (DataValidationException ''weather_schottenfeldgasse'') \<and>
   rows_of empty_state ''air_quality_schottenfeldgasse'' = [] \<and>
   rows_of (snd (process_sensor_backfill (demo_env STRICT (- 5)) ''/repo'' demo_row ''key'' 20000
                   empty_state)) ''air_quality_schottenfeldgasse'' = demo_df_aq \<and>
   demo_df_aq \<noteq> [] \<and>
   rows_of (snd (process_sensor_backfill (demo_env ALWAYS (- 5)) ''/repo'' demo_row ''key'' 20000
                   empty_state)) ''weather_schottenfeldgasse'' = demo_weather (- 5)"
proof -
  have "rows_of empty_state ''air_quality_schottenfeldgasse'' = []"
    by (simp add: rows_of_def fg_rows_def empty_state_def)
  moreover have "demo_df_aq \<noteq> []"
    by (simp add: demo_df_aq_def)
  ultimately show ?thesis
    by (simp add: demo_validation demo_backfill_rejected demo_backfill_rejected_rows
          demo_backfill_always_rows)
qed

subsection \<open>A failing air-quality batch is rejected\<close>

text \<open>
  The exception in the statement above does occur: with a rejecting store, when every step
  before the first insert returns and the air-quality batch fails the suite attached to
  its collection, \<open>process_sensor\<close> ends with that exception and no collection has new
  rows.
\<close>

lemma fg_spec_total:
  assumes "unchanged_fgs m"
    and "\<And>s. \<exists>x. fst (m s) = Inr x"
    and "\<And>x. fg_spec Q (f x)"
  shows "fg_spec Q (andthen m f)"
  unfolding fg_spec_def
proof
  fix s
  from assms(2) [of s] obtain x s' where ms: "m s = (Inr x, s')"
    by (cases "m s") auto
  with assms(1) have g: "feature_groups s' = feature_groups s"
    by (auto simp: unchanged_fgs_def dest: spec [of _ s])
  from ms g assms(3) [of x]
  show "Q (feature_groups s) (fst (andthen m f s)) (feature_groups (snd (andthen m f s)))"
    by (auto simp: andthen_def fg_spec_def dest: spec [of _ s'])
qed

lemma save_secret_returns:
  assumes "\<And>t. \<not> create_secret_raises env t name"
  shows "\<exists>x. fst (save_secret env name val s) = Inr x"
  using assms
  by (auto simp: save_secret_def andthen_def try_except_def get_secret_def delete_secret_def
        create_secret_def print_def ret_def split: option.splits)

lemma andthen_ret: "andthen (ret x) f = f x"
  by (rule ext) (simp add: andthen_def ret_def)

lemma print_returns: "\<exists>x. fst (print ev s) = Inr x"
  by (simp add: print_def)

lemma backfill_tail_rejects:
  assumes "validation_ingestion_policy env = STRICT"
  shows "fg_spec (\<lambda>g r g'.
            \<not> validate (case g aq of None \<Rightarrow> su1 | Some fg \<Rightarrow> expectation_suite fg) df_aq \<longrightarrow>
              r = Inl (DataValidationException aq) \<and> (\<forall>n. fg_rows g' n = fg_rows g n))
     (andthen (get_or_create_feature_group aq d1 v1 pk1 et1 su1) (\<lambda>air_quality_fg.
      andthen (insert_rows env air_quality_fg df_aq) rest))"
  using assms
  by (auto simp: fg_spec_def andthen_def get_or_create_feature_group_def insert_rows_def
        lift_def fg_rows_def split: option.splits)

lemma backfill_rejects_failing_batch:
  assumes "row_str row ''AQICN_URL'' = Inr aqicn_url" and "row_str row ''country'' = Inr country"
    and "row_str row ''city'' = Inr city" and "row_str row ''street'' = Inr street"
    and "row_str row ''latitude'' = Inr latitude" and "row_str row ''longitude'' = Inr longitude"
    and "read_csv env (air_quality_csv_path root_dir street) = Inr df"
    and "select_columns [''date'', ''pm25''] df = Inr selected"
    and "astype_float ''pm25'' selected = Inr floats"
    and "df_aq = assign ''url'' (Str aqicn_url) (assign ''street'' (Str street)
                   (assign ''city'' (Str city) (assign ''country'' (Str country)
                     (dropna floats))))"
    and "earliest_date df_aq = Inr earliest_aq_date"
    and "get_historical_weather env city earliest_aq_date today latitude longitude = Inr weather_df"
    and "astype_float ''pm25'' df_aq = Inr batch"
    and "\<And>t name. \<not> create_secret_raises env t name"
    and "validation_ingestion_policy env = STRICT"
    and "\<not> validate (case feature_groups s (''air_quality_'' @ slugify street) of
                        None \<Rightarrow> ge_suite_air_quality
                      | Some fg \<Rightarrow> expectation_suite fg) batch"
  shows "fst (process_sensor_backfill env root_dir row aq_api_key today s)
           = Inl (DataValidationException (''air_quality_'' @ slugify street)) \<and>
         (\<forall>n. rows_of (snd (process_sensor_backfill env root_dir row aq_api_key today s)) n
                = rows_of s n)"
proof -
  have "fg_spec (\<lambda>g r g'.
            \<not> validate (case g (''air_quality_'' @ slugify street) of
                           None \<Rightarrow> ge_suite_air_quality
                         | Some fg \<Rightarrow> expectation_suite fg) batch \<longrightarrow>
              r = Inl (DataValidationException (''air_quality_'' @ slugify street)) \<and>
              (\<forall>n. fg_rows g' n = fg_rows g n))
          (process_sensor_backfill env root_dir row aq_api_key today)"
    unfolding process_sensor_backfill_def assms(1-9) andthen_lift_Inr andthen_ret
      assms(10) [symmetric] assms(11-13)
    apply (rule fg_spec_total, simp add: unchanged, rule print_returns)
    apply (rule fg_spec_total, simp add: unchanged, rule save_secret_returns, rule assms(14))
    apply (rule fg_spec_total, simp add: unchanged, rule save_secret_returns, rule assms(14))
    apply (rule backfill_tail_rejects [OF assms(15)])
    done
  from this [unfolded fg_spec_def, rule_format, of s] assms(16)
  show ?thesis by (simp add: rows_of_def)
qed

section \<open>The daily weather sample\<close>

lemma between_time_Inr:
  "between_time a b df = Inr out \<Longrightarrow>
     out = filter (\<lambda>r. case map_of r ''date'' of
                         Some (Ts d t) \<Rightarrow> a \<le> t \<and> t \<le> b | _ \<Rightarrow> False) df \<and>
     (\<forall>r \<in> set df. \<exists>d t. map_of r ''date'' = Some (Ts d t))"
proof (induction df arbitrary: out)
  case Nil
  then show ?case by (simp add: between_time_def)
next
  case (Cons r df)
  from Cons.prems obtain d t trs where r: "map_of r ''date'' = Some (Ts d t)"
    and tr: "traverse (\<lambda>r. case map_of r ''date'' of
                            None \<Rightarrow> Inl (KeyError ''date'')
                          | Some (Ts d t) \<Rightarrow> Inr (t, r)
                          | Some _ \<Rightarrow> Inl (TypeError ''Index must be DatetimeIndex'')) df
               = Inr trs"
    by (auto simp: between_time_def split: sum.splits option.splits cell.splits)
  then have bt: "between_time a b df
                   = Inr (map snd (filter (\<lambda>tr. a \<le> fst tr \<and> fst tr \<le> b) trs))"
    by (simp add: between_time_def)
  from Cons.IH [OF bt] Cons.prems r tr show ?case
    by (auto simp: between_time_def)
qed

lemma daily_weather_Inr:
  assumes "daily_weather city hourly_df = Inr daily_df"
  shows "daily_df = map (\<lambda>r. AList.update ''city'' (Str city) (normalize_date r))
                      (filter in_noon_window hourly_df)"
    and "\<forall>r \<in> set hourly_df. \<exists>d t. map_of r ''date'' = Some (Ts d t)"
proof -
  from assms obtain out
    where bt: "between_time (time_micros 11 59) (time_micros 12 1) hourly_df = Inr out"
    and d: "daily_df = assign ''city'' (Str city) (map normalize_date out)"
    by (auto simp: daily_weather_def split: sum.splits)
  from between_time_Inr [OF bt] have
    out: "out = filter (\<lambda>r. case map_of r ''date'' of
                Some (Ts d t) \<Rightarrow> time_micros 11 59 \<le> t \<and> t \<le> time_micros 12 1
              | _ \<Rightarrow> False) hourly_df"
    and ts: "\<forall>r \<in> set hourly_df. \<exists>d t. map_of r ''date'' = Some (Ts d t)" by simp_all
  have "out = filter in_noon_window hourly_df"
    unfolding out in_noon_window_def
    by (rule filter_cong) (auto split: option.splits cell.splits)
  with d show "daily_df = map (\<lambda>r. AList.update ''city'' (Str city) (normalize_date r))
                      (filter in_noon_window hourly_df)"
    by (simp add: assign_def)
  from ts show "\<forall>r \<in> set hourly_df. \<exists>d t. map_of r ''date'' = Some (Ts d t)" .
qed

lemma at_midnight_normalized:
  "map_of r ''date'' = Some (Ts d t) \<Longrightarrow>
     at_midnight (AList.update ''city'' v (normalize_date r))"
  by (simp add: at_midnight_def normalize_date_def update_conv')

lemma daily_weather_midnight:
  assumes "daily_weather city hourly_df = Inr daily_df"
  shows "list_all at_midnight daily_df"
  using daily_weather_Inr [OF assms]
  by (auto simp: list_all_iff dest!: bspec intro: at_midnight_normalized)

lemma daily_weather_ok:
  assumes "\<forall>r \<in> set hourly_df. \<exists>d t. map_of r ''date'' = Some (Ts d t)"
  shows "\<exists>daily_df. daily_weather city hourly_df = Inr daily_df"
proof -
  let ?f = "\<lambda>r. case map_of r ''date'' of
                            None \<Rightarrow> Inl (KeyError ''date'')
                          | Some (Ts d t) \<Rightarrow> Inr (t, r)
                          | Some _ \<Rightarrow> Inl (TypeError ''Index must be DatetimeIndex'')"
  from assms have "\<exists>trs. traverse ?f hourly_df = Inr trs"
    by (induction hourly_df) auto
  then show ?thesis by (auto simp: daily_weather_def between_time_def)
qed

text \<open>
  Claim C3, as the code has it: the daily frame holds one row for every sample of the
  forecast whose time of day lies between 11:59 and 12:01 (both included), in the
  forecast's order, with the date cut to the day and the city added; it is empty exactly
  when no sample lies in the window.  The selection returns a frame whenever every sample
  carries a timestamp.
\<close>

theorem noon_window_selection:
  "(daily_weather city hourly_df = Inr daily_df \<longrightarrow>
      daily_df = map (\<lambda>r. AList.update ''city'' (Str city) (normalize_date r))
                   (filter in_noon_window hourly_df) \<and>
      length daily_df = length (filter in_noon_window hourly_df) \<and>
      (daily_df = [] \<longleftrightarrow> \<not> (\<exists>r \<in> set hourly_df. in_noon_window r))) \<and>
   ((\<forall>r \<in> set hourly_df. \<exists>d t. map_of r ''date'' = Some (Ts d t)) \<longrightarrow>
      (\<exists>daily. daily_weather city hourly_df = Inr daily))"
  using daily_weather_Inr(1) [of city hourly_df daily_df] daily_weather_ok [of hourly_df city]
  by (auto simp: filter_empty_conv)

text \<open>
  The theorem at a forecast of four samples over two days (11:00, 12:00, 13:00, and 12:00
  of the next day): the two noon samples are kept.
\<close>

theorem noon_window_selection_witness:
  "daily_weather ''wien'' demo_hourly = Inr demo_daily \<and>
   length demo_daily = length (filter in_noon_window demo_hourly) \<and>
   length demo_daily = 2 \<and>
   (\<exists>r \<in> set demo_hourly. in_noon_window r)"
proof -
  have h: "daily_weather ''wien'' demo_hourly = Inr demo_daily"
    by (rule demo_daily_weather)
  have n: "demo_daily \<noteq> [] \<and> length demo_daily = 2"
    by (simp add: demo_daily_def)
  from noon_window_selection [of "''wien''" demo_hourly demo_daily] h n
  show ?thesis by blast
qed

text \<open>
  Claim C3 as stated fails: a forecast sampled at 11:30 and 12:30 has no sample in the
  window, and the daily frame is empty instead of holding the nearest sample; a forecast
  over two days gives two rows, not one.
\<close>

theorem noon_sample_counterexample:
  "half_hourly \<noteq> [] \<and> daily_weather ''wien'' half_hourly = Inr [] \<and>
   daily_weather ''wien'' demo_hourly = Inr demo_daily \<and> length demo_daily = 2"
proof -
  have "half_hourly \<noteq> []" by (simp add: half_hourly_def)
  moreover have "length demo_daily = 2" by (simp add: demo_daily_def)
  ultimately show ?thesis by (simp add: demo_daily_weather)
qed

lemma pipeline_tail_midnight:
  assumes "list_all at_midnight daily_df" and "aq \<noteq> wx"
  shows "fg_spec (\<lambda>g r g'. \<exists>new. fg_rows g' wx = fg_rows g wx @ new \<and> list_all at_midnight new \<and>
                            (r = Inr () \<longrightarrow> new = daily_df))
     (andthen (get_feature_group aq) (\<lambda>aq_fg.
      andthen (get_feature_group wx) (\<lambda>wx_fg.
      andthen (insert_rows env aq_fg aq_today_df) (\<lambda>_.
      andthen (insert_rows env wx_fg daily_df) (\<lambda>_.
      print ev)))))"
  using assms
  by (auto simp: fg_spec_def andthen_def get_feature_group_def insert_rows_def print_def fg_rows_def
        split: option.splits)

lemma pipeline_midnight:
  assumes "row_str row ''street'' = Inr street"
  shows "fg_spec (\<lambda>g r g'. \<exists>new.
            fg_rows g' (''weather_'' @ slugify street)
              = fg_rows g (''weather_'' @ slugify street) @ new \<and>
            list_all at_midnight new \<and>
            (r = Inr () \<longrightarrow>
               (\<exists>city latitude longitude hourly_df.
                   get_hourly_weather_forecast env city latitude longitude = Inr hourly_df \<and>
                   daily_weather city hourly_df = Inr new)))
          (process_sensor_pipeline env row aq_api_key today)"
  unfolding process_sensor_pipeline_def
  apply (insert assms)
  apply ((rule fg_spec_lift, simp) | (rule fg_spec_unch, simp add: unchanged, simp))+
  apply clarsimp
  apply (frule daily_weather_midnight)
  apply (drule pipeline_tail_midnight [where aq = "''air_quality_'' @ slugify street"
        and wx = "''weather_'' @ slugify street"])
   apply simp
  apply (fastforce simp: fg_spec_def)
  done

text \<open>
  Claim C10: whatever a daily update does for a sensor, the rows it adds to the sensor's
  weather collection all carry a date at 00:00; when the update completes, these rows are
  the near-noon selection of the hourly forecast, whose times of day were cut off.
\<close>

theorem weather_rows_at_midnight:
  assumes "row_str row ''street'' = Inr street"
  shows "\<exists>new.
     rows_of (snd (process_sensor_pipeline env row aq_api_key today s)) (''weather_'' @ slugify street)
       = rows_of s (''weather_'' @ slugify street) @ new \<and>
     list_all at_midnight new \<and>
     (fst (process_sensor_pipeline env row aq_api_key today s) = Inr () \<longrightarrow>
        (\<exists>city latitude longitude hourly_df.
            get_hourly_weather_forecast env city latitude longitude = Inr hourly_df \<and>
            daily_weather city hourly_df = Inr new))"
  using pipeline_midnight [OF assms, of env aq_api_key today, unfolded fg_spec_def, rule_format,
      of s]
  unfolding rows_of_def .

text \<open>
  The theorem at the demo sensor: the two samples taken at 12:00 are stored with the time
  00:00.
\<close>

theorem weather_rows_at_midnight_witness:
  "row_str demo_row ''street'' = Inr ''Schottenfeldgasse'' \<and>
   fst (process_sensor_pipeline (demo_env STRICT 0) demo_row ''key'' 20000 seeded_state) = Inr () \<and>
   rows_of seeded_state ''weather_schottenfeldgasse'' = [] \<and>
   rows_of (snd (process_sensor_pipeline (demo_env STRICT 0) demo_row ''key'' 20000 seeded_state))
     ''weather_schottenfeldgasse'' = demo_daily \<and>
   list_all at_midnight demo_daily \<and> demo_daily \<noteq> []"
proof -
  have h: "row_str demo_row ''street'' = Inr ''Schottenfeldgasse''"
    by (rule demo_row_fields)
  have e: "rows_of seeded_state ''weather_schottenfeldgasse'' = []"
    by (simp add: rows_of_def fg_rows_def seeded_state_def)
  have n: "demo_daily \<noteq> []"
    by (simp add: demo_daily_def)
  from weather_rows_at_midnight [OF h, of "demo_env STRICT 0" "''key''" 20000 seeded_state]
  obtain new where
    "rows_of (snd (process_sensor_pipeline (demo_env STRICT 0) demo_row ''key'' 20000 seeded_state))
       (''weather_'' @ slugify ''Schottenfeldgasse'')
       = rows_of seeded_state (''weather_'' @ slugify ''Schottenfeldgasse'') @ new"
    and "list_all at_midnight new"
    by blast
  with e have "list_all at_midnight demo_daily"
    by (simp add: demo_slug demo_pipeline_rows)
  with h e n show ?thesis
    by (simp add: demo_pipeline_ok demo_pipeline_rows)
qed

section \<open>The registry and the loop over the sensors\<close>

lemma missing_cols_mem:
  "c \<in> set (missing_cols df) \<longleftrightarrow> c \<in> set required_cols \<and> c \<notin> set (columns df)"
  by (auto simp: missing_cols_def)

lemma demo_registry_complete: "missing_cols (demo_registry rs) = []"
  by (simp add: missing_cols_def demo_registry_def required_cols_def)

lemma no_latitude_missing: "missing_cols no_latitude_registry = [''latitude'']"
  by (simp add: missing_cols_def no_latitude_registry_def required_cols_def)



text \<open>
  Claim C7: when the header of the registry lacks a required column \<open>c\<close>, both scripts end
  with exit code 1 and leave the secret store and the feature store as they were (no
  sensor is processed); when the API key is there, the one thing printed is the error
  with the sorted list of the missing columns, and \<open>c\<close> is in that list.
\<close>

theorem missing_column_fatal:
  assumes "c \<in> set required_cols" and "c \<notin> set (columns df)"
  shows "fst (main_backfill env root_dir k (Some (Inr df)) today s) = 1 \<and>
         secrets (snd (main_backfill env root_dir k (Some (Inr df)) today s)) = secrets s \<and>
         feature_groups (snd (main_backfill env root_dir k (Some (Inr df)) today s))
           = feature_groups s \<and>
         (k \<noteq> None \<longrightarrow>
            stdout (snd (main_backfill env root_dir k (Some (Inr df)) today s))
              = stdout s @ [MissingRequiredColumns (missing_cols df)]) \<and>
         fst (main_pipeline env k (Some (Inr df)) today s) = 1 \<and>
         secrets (snd (main_pipeline env k (Some (Inr df)) today s)) = secrets s \<and>
         feature_groups (snd (main_pipeline env k (Some (Inr df)) today s)) = feature_groups s \<and>
         (\<forall>key. fst (get_aqicn_api_key env k s) = Inr key \<longrightarrow>
            stdout (snd (main_pipeline env k (Some (Inr df)) today s))
              = stdout s @ [Traceback (MissingColumnsError (missing_cols df))]) \<and>
         c \<in> set (missing_cols df)"
proof -
  from assms have m: "c \<in> set (missing_cols df)" by (simp add: missing_cols_mem)
  then have ne: "missing_cols df \<noteq> []" by auto
  obtain r s0 where g: "get_aqicn_api_key env k s = (r, s0)"
    by (cases "get_aqicn_api_key env k s")
  with get_aqicn_api_key_state [of env k s] have s0: "s0 = s" by simp
  have bf: "fst (main_backfill env root_dir k (Some (Inr df)) today s) = 1 \<and>
         secrets (snd (main_backfill env root_dir k (Some (Inr df)) today s)) = secrets s \<and>
         feature_groups (snd (main_backfill env root_dir k (Some (Inr df)) today s))
           = feature_groups s \<and>
         (k \<noteq> None \<longrightarrow>
            stdout (snd (main_backfill env root_dir k (Some (Inr df)) today s))
              = stdout s @ [MissingRequiredColumns (missing_cols df)])"
    using ne by (auto simp: main_backfill_def print_def split: option.splits)
  have pl: "fst (main_pipeline env k (Some (Inr df)) today s) = 1 \<and>
         secrets (snd (main_pipeline env k (Some (Inr df)) today s)) = secrets s \<and>
         feature_groups (snd (main_pipeline env k (Some (Inr df)) today s)) = feature_groups s \<and>
         (\<forall>key. fst (get_aqicn_api_key env k s) = Inr key \<longrightarrow>
            stdout (snd (main_pipeline env k (Some (Inr df)) today s))
              = stdout s @ [Traceback (MissingColumnsError (missing_cols df))])"
    using ne g s0 by (cases r) (auto simp: main_pipeline_def get_sensor_rows_def print_def)
  from bf pl m show ?thesis by blast
qed

text \<open>The theorem at a registry without the column \<open>latitude\<close>.\<close>

theorem missing_column_fatal_witness:
  "''latitude'' \<in> set required_cols \<and> ''latitude'' \<notin> set (columns no_latitude_registry) \<and>
   fst (main_backfill (demo_env STRICT 0) ''/repo'' (Some ''key'') (Some (Inr no_latitude_registry))
          20000 empty_state) = 1 \<and>
   stdout (snd (main_backfill (demo_env STRICT 0) ''/repo'' (Some ''key'')
                  (Some (Inr no_latitude_registry)) 20000 empty_state))
     = [MissingRequiredColumns [''latitude'']] \<and>
   fst (get_aqicn_api_key (demo_env STRICT 0) (Some ''key'') empty_state) = Inr ''key'' \<and>
   fst (main_pipeline (demo_env STRICT 0) (Some ''key'') (Some (Inr no_latitude_registry))
          20000 empty_state) = 1 \<and>
   stdout (snd (main_pipeline (demo_env STRICT 0) (Some ''key'') (Some (Inr no_latitude_registry))
                  20000 empty_state))
     = [Traceback (MissingColumnsError [''latitude''])]"
proof -
  have h1: "''latitude'' \<in> set required_cols"
    by (simp add: required_cols_def)
  have h2: "''latitude'' \<notin> set (columns no_latitude_registry)"
    by (simp add: no_latitude_registry_def)
  have h3: "fst (get_aqicn_api_key (demo_env STRICT 0) (Some ''key'') empty_state) = Inr ''key''"
    by (simp add: get_aqicn_api_key_def ret_def)
  have e: "stdout empty_state = []"
    by (simp add: empty_state_def)
  from missing_column_fatal [OF h1 h2, of "demo_env STRICT 0" "''/repo''" "Some ''key''" 20000
      empty_state] h1 h2 h3
  show ?thesis by (simp add: no_latitude_missing e)
qed

section \<open>Rows with empty fields\<close>

lemma printed_first:
  assumes "keeps_history m"
  shows "ev \<in> set (stdout (snd (andthen (print ev) (\<lambda>_. m) s)))"
proof -
  let ?s1 = "s\<lparr>stdout := stdout s @ [ev]\<rparr>"
  have "extends ?s1 (snd (m ?s1))" using assms by (simp add: keeps_history_def)
  then have "prefix (stdout ?s1) (stdout (snd (m ?s1)))" by (simp add: extends_def)
  then have "set (stdout ?s1) \<subseteq> set (stdout (snd (m ?s1)))" by (rule set_mono_prefix)
  then show ?thesis by (auto simp: andthen_def print_def)
qed

lemma row_str_present: "map_of r c \<noteq> None \<Longrightarrow> row_str r c = Inr (strip (row_get r c []))"
  by (auto simp: row_str_def row_get_def)

lemma required_present:
  assumes "\<forall>c \<in> set required_cols. map_of r c \<noteq> None"
  shows "row_str r ''AQICN_URL'' = Inr (strip (row_get r ''AQICN_URL'' []))"
    and "row_str r ''country'' = Inr (strip (row_get r ''country'' []))"
    and "row_str r ''city'' = Inr (strip (row_get r ''city'' []))"
    and "row_str r ''street'' = Inr (strip (row_get r ''street'' []))"
    and "row_str r ''latitude'' = Inr (strip (row_get r ''latitude'' []))"
    and "row_str r ''longitude'' = Inr (strip (row_get r ''longitude'' []))"
  using assms by (simp_all add: required_cols_def row_str_present)

lemma backfill_prints:
  assumes "\<forall>c \<in> set required_cols. map_of r c \<noteq> None"
  shows "ProcessingSensor (strip (row_get r ''city'' [])) (strip (row_get r ''street'' []))
           \<in> set (stdout (snd (process_sensor_backfill env root_dir r key today s)))"
  unfolding process_sensor_backfill_def required_present [OF assms] andthen_lift_Inr
  by (rule printed_first) (intro keeps_intros)

lemma pipeline_prints:
  assumes "\<forall>c \<in> set required_cols. map_of r c \<noteq> None"
  shows "DailyUpdate (strip (row_get r ''city'' [])) (strip (row_get r ''street'' [])) today
           \<in> set (stdout (snd (process_sensor_pipeline env r key today s)))"
  unfolding process_sensor_pipeline_def required_present [OF assms] andthen_lift_Inr
  by (rule printed_first) (intro keeps_intros)

lemma try_except_keeps:
  assumes "ev \<in> set (stdout (snd (m s)))"
  shows "ev \<in> set (stdout (snd (try_except m (on_error r) s)))"
  using assms
  by (cases "m s") (auto simp: try_except_def on_error_def print_def split: sum.splits)

lemma printed_in_loop:
  assumes "r \<in> set rs" and "\<And>t. ev \<in> set (stdout (snd (proc r t)))"
    and "\<And>row. keeps_history (proc row)"
  shows "ev \<in> set (stdout (sensor_loop proc rs s))"
proof -
  from assms(1) obtain rs1 rs2 where rs: "rs = rs1 @ r # rs2" by (auto dest: split_list)
  let ?t = "sensor_loop proc rs1 s"
  let ?u = "snd (try_except (proc r) (on_error r) ?t)"
  have "ev \<in> set (stdout ?u)" by (rule try_except_keeps) (rule assms(2))
  moreover have "extends ?u (sensor_loop proc rs2 ?u)"
    by (rule sensor_loop_extends) (rule assms(3))
  then have "set (stdout ?u) \<subseteq> set (stdout (sensor_loop proc rs2 ?u))"
    by (auto simp: extends_def dest: set_mono_prefix)
  ultimately show ?thesis by (auto simp: rs sensor_loop_append)
qed

text \<open>
  Claim C8, as the code has it: loading the registry rejects no row.  Every row of a
  registry with the required columns is handed to \<open>process_sensor\<close>, whatever its fields
  hold (an empty field included), which shows in the line each script prints when it
  starts on a sensor.
\<close>

theorem every_row_processed:
  assumes "missing_cols df = []" and "r \<in> set (records df)"
    and "\<forall>c \<in> set required_cols. map_of r c \<noteq> None"
  shows "ProcessingSensor (strip (row_get r ''city'' [])) (strip (row_get r ''street'' []))
           \<in> set (stdout (snd (main_backfill env root_dir (Some key) (Some (Inr df)) today s))) \<and>
         (fst (get_aqicn_api_key env k s) = Inr key \<longrightarrow>
          DailyUpdate (strip (row_get r ''city'' [])) (strip (row_get r ''street'' [])) today
           \<in> set (stdout (snd (main_pipeline env k (Some (Inr df)) today s))))"
proof -
  have 1: "ProcessingSensor (strip (row_get r ''city'' [])) (strip (row_get r ''street'' []))
      \<in> set (stdout (sensor_loop (\<lambda>row. process_sensor_backfill env root_dir row key today)
                       (records df) t))" for t
    by (rule printed_in_loop [OF assms(2)])
       (rule backfill_prints [OF assms(3)], rule keeps_backfill)
  have 2: "DailyUpdate (strip (row_get r ''city'' [])) (strip (row_get r ''street'' [])) today
      \<in> set (stdout (sensor_loop (\<lambda>row. process_sensor_pipeline env row key today)
                       (records df) t))" for t
    by (rule printed_in_loop [OF assms(2)])
       (rule pipeline_prints [OF assms(3)], rule keeps_pipeline)
  obtain x s0 where g: "get_aqicn_api_key env k s = (x, s0)"
    by (cases "get_aqicn_api_key env k s")
  show ?thesis
    using assms(1) 1 2 g
    by (auto simp: main_backfill_def main_pipeline_def get_sensor_rows_def Let_def print_def)
qed

text \<open>The theorem at the row whose six fields are all empty.\<close>

theorem every_row_processed_witness:
  "missing_cols (demo_registry [blank_row, demo_row]) = [] \<and>
   blank_row \<in> set (records (demo_registry [blank_row, demo_row])) \<and>
   list_all (\<lambda>c. map_of blank_row c \<noteq> None) required_cols \<and>
   row_get blank_row ''street'' [] = [] \<and>
   ProcessingSensor (strip (row_get blank_row ''city'' [])) (strip (row_get blank_row ''street'' []))
     \<in> set (stdout (snd (main_backfill (demo_env STRICT 0) ''/repo'' (Some ''key'')
                           (Some (Inr (demo_registry [blank_row, demo_row]))) 20000 empty_state)))"
proof -
  have h1: "missing_cols (demo_registry [blank_row, demo_row]) = []"
    by (rule demo_registry_complete)
  have h2: "blank_row \<in> set (records (demo_registry [blank_row, demo_row]))"
    by (simp add: demo_registry_def)
  have h3: "\<forall>c \<in> set required_cols. map_of blank_row c \<noteq> None"
    by (simp add: required_cols_def blank_row_def)
  have h4: "row_get blank_row ''street'' [] = []"
    by (rule blank_row_fields)
  from h3 have h5: "list_all (\<lambda>c. map_of blank_row c \<noteq> None) required_cols"
    by (simp add: list_all_iff)
  from every_row_processed [OF h1 h2 h3, of "demo_env STRICT 0" "''/repo''" "''key''" 20000
      empty_state None] h1 h2 h4 h5
  show ?thesis by blast
qed

text \<open>
  Claim C8 as stated fails: a registry line whose fields are all empty is not rejected when
  the registry is loaded.  The backfill starts on it as on any sensor and only fails, inside
  the loop, because there is no file \<open>data/.csv\<close>; the run ends with exit code 0.
\<close>

theorem blank_row_counterexample:
  "main_backfill (demo_env STRICT 0) ''/repo'' (Some ''key'') (Some (Inr (demo_registry [blank_row])))
     20000 empty_state
   = (0, empty_state\<lparr>stdout :=
          [ProcessingSensors 1, ProcessingSensor [] [],
           ErrorProcessing [] [] (FileNotFoundError ''/repo/data/.csv''),
           AllSensorsProcessed]\<rparr>)"
proof -
  have r: "records (demo_registry [blank_row]) = [blank_row]"
    by (simp add: demo_registry_def)
  show ?thesis
    by (simp add: main_backfill_def demo_registry_complete r Let_def print_def try_except_def
          on_error_def blank_backfill_fails blank_row_fields empty_state_def)
qed

section \<open>Secrets\<close>

text \<open>
  Claim C6: \<open>save_secret\<close> always ends in \<open>create_secret\<close> with the given value, on a store
  that is the one before or that one without the name; when the lookup and the delete
  work and the name is there, the old secret is deleted first; whatever the lookup and
  the delete do, the call returns normally as soon as the create does; a call that
  returns leaves the value under the name, so two calls in a row leave the second value
  (the store is keyed by name: there is one secret per name).
\<close>

theorem upsert_secret:
  "(\<exists>t. save_secret env name val s = create_secret env name val t \<and>
        (secrets t = secrets s \<or> secrets t = (secrets s)(name := None)) \<and>
        feature_groups t = feature_groups s) \<and>
   (\<not> get_secret_raises env s name \<and> \<not> delete_secret_raises env s name \<and>
    secrets s name \<noteq> None \<longrightarrow>
      save_secret env name val s =
        create_secret env name val
          (s\<lparr>secrets := (secrets s)(name := None),
             stdout := stdout s @ [ReplacingExistingSecret name]\<rparr>)) \<and>
   ((\<forall>t. \<not> create_secret_raises env t name) \<longrightarrow> fst (save_secret env name val s) = Inr ()) \<and>
   (fst (save_secret env name val s) = Inr () \<longrightarrow>
      secrets (snd (save_secret env name val s)) = (secrets s)(name \<mapsto> val)) \<and>
   (fst (save_secret env name v1 s) = Inr () \<and>
    fst (save_secret env name v2 (snd (save_secret env name v1 s))) = Inr () \<longrightarrow>
      secrets (snd (save_secret env name v2 (snd (save_secret env name v1 s))))
        = (secrets s)(name \<mapsto> v2))"
proof -
  have 1: "\<exists>t. save_secret env name val s = create_secret env name val t \<and>
        (secrets t = secrets s \<or> secrets t = (secrets s)(name := None)) \<and>
        feature_groups t = feature_groups s"
  proof (cases "get_secret_raises env s name \<or> secrets s name = None
                \<or> delete_secret_raises env s name")
    case True
    then have "save_secret env name val s = create_secret env name val s"
      by (auto simp: save_secret_def andthen_def try_except_def get_secret_def delete_secret_def
            print_def ret_def split: option.splits)
    then show ?thesis by blast
  next
    case False
    then have "save_secret env name val s = create_secret env name val
          (s\<lparr>secrets := (secrets s)(name := None),
             stdout := stdout s @ [ReplacingExistingSecret name]\<rparr>)"
      by (auto simp: save_secret_def andthen_def try_except_def get_secret_def delete_secret_def
            print_def ret_def split: option.splits)
    then show ?thesis by force
  qed
  have 2: "\<not> get_secret_raises env s name \<and> \<not> delete_secret_raises env s name \<and>
    secrets s name \<noteq> None \<longrightarrow>
      save_secret env name val s =
        create_secret env name val
          (s\<lparr>secrets := (secrets s)(name := None),
             stdout := stdout s @ [ReplacingExistingSecret name]\<rparr>)"
    by (auto simp: save_secret_def andthen_def try_except_def get_secret_def delete_secret_def
          print_def ret_def split: option.splits)
  have 3: "(\<forall>t. \<not> create_secret_raises env t name) \<longrightarrow> fst (save_secret env name val s) = Inr ()"
    by (auto simp: save_secret_def andthen_def try_except_def get_secret_def delete_secret_def
          create_secret_def print_def ret_def split: option.splits)
  have 4: "fst (save_secret env name w u) = Inr () \<longrightarrow>
      secrets (snd (save_secret env name w u)) = (secrets u)(name \<mapsto> w)" for w u
    by (auto simp: save_secret_def andthen_def try_except_def get_secret_def delete_secret_def
          create_secret_def print_def ret_def split: option.splits if_splits)
  have 5: "fst (save_secret env name v1 s) = Inr () \<and>
    fst (save_secret env name v2 (snd (save_secret env name v1 s))) = Inr () \<longrightarrow>
      secrets (snd (save_secret env name v2 (snd (save_secret env name v1 s))))
        = (secrets s)(name \<mapsto> v2)"
    using 4 [of v1 s] 4 [of v2 "snd (save_secret env name v1 s)"] by auto
  from 1 2 3 4 [of val s] 5 show ?thesis by blast
qed

text \<open>The theorem at two upserts of the API key into the empty store.\<close>

theorem upsert_secret_witness:
  "(\<forall>t. \<not> create_secret_raises (demo_env STRICT 0) t ''AQICN_API_KEY'') \<and>
   fst (save_secret (demo_env STRICT 0) ''AQICN_API_KEY'' ''first'' empty_state) = Inr () \<and>
   fst (save_secret (demo_env STRICT 0) ''AQICN_API_KEY'' ''second''
          (snd (save_secret (demo_env STRICT 0) ''AQICN_API_KEY'' ''first'' empty_state))) = Inr () \<and>
   secrets (snd (save_secret (demo_env STRICT 0) ''AQICN_API_KEY'' ''second''
                   (snd (save_secret (demo_env STRICT 0) ''AQICN_API_KEY'' ''first'' empty_state))))
       ''AQICN_API_KEY'' = Some ''second''"
proof -
  have h: "\<forall>t. \<not> create_secret_raises (demo_env STRICT 0) t ''AQICN_API_KEY''"
    by (simp add: demo_env_def)
  have a: "fst (save_secret (demo_env STRICT 0) ''AQICN_API_KEY'' v u) = Inr ()" for v u
    using upsert_secret [of "demo_env STRICT 0" "''AQICN_API_KEY''" v u] h by blast
  from upsert_secret [of "demo_env STRICT 0" "''AQICN_API_KEY''" "''second''" empty_state
      "''first''" "''second''"] a
  have "secrets (snd (save_secret (demo_env STRICT 0) ''AQICN_API_KEY'' ''second''
                   (snd (save_secret (demo_env STRICT 0) ''AQICN_API_KEY'' ''first'' empty_state))))
        = (secrets empty_state)(''AQICN_API_KEY'' \<mapsto> ''second'')"
    by blast
  then have "secrets (snd (save_secret (demo_env STRICT 0) ''AQICN_API_KEY'' ''second''
                   (snd (save_secret (demo_env STRICT 0) ''AQICN_API_KEY'' ''first'' empty_state))))
       ''AQICN_API_KEY'' = Some ''second''"
    by simp
  with h a show ?thesis by blast
qed


end
